theory Spec2Isabelle
  imports Complex_Main
begin

section \<open>Balance-sheet positions and the liquidity gap engine\<close>

text \<open>
  A shallow embedding of \<^verbatim>\<open>models/positions.py\<close> and \<^verbatim>\<open>analytics/liquidity.py\<close>.

  Conventions of the embedding:
  \<^item> a \<^verbatim>\<open>datetime.date\<close> is its proleptic Gregorian ordinal (\<^verbatim>\<open>date.toordinal()\<close>), an
    \<open>int\<close>; \<^verbatim>\<open>(a - b).days\<close> is then \<open>a - b\<close> and the comparisons of dates are those of the
    ordinals. A date object is always truthy, so \<^verbatim>\<open>not d\<close> holds of an optional date exactly
    when it is \<^verbatim>\<open>None\<close>;
  \<^item> a \<^verbatim>\<open>Decimal\<close> is the rational number it denotes. \<^verbatim>\<open>Decimal\<close> equality and order are
    numeric, and a \<^verbatim>\<open>Decimal\<close> is falsy exactly when it is zero. The arithmetic of the
    cash-flow methods goes through the operations \<open>dec_add\<close>, \<open>dec_mul\<close>, \<open>dec_div\<close> and
    \<open>dec_neg\<close> below, which round each result as the default decimal context does. The
    products and sums of the gap engine are modelled exactly: they are those of the code as
    long as every intermediate result has at most 28 significant digits, which the rounding
    leaves unchanged (\<open>dec_round_exact\<close>);
  \<^item> a \<^verbatim>\<open>str\<close> is the list of its code points, which the type \<open>char\<close> limits to those
    below 256;
  \<^item> a raised exception is the \<open>Inl\<close> branch of a sum type.
\<close>

type_synonym date = int
type_synonym decimal = rat

subsection \<open>The arithmetic of \<^verbatim>\<open>Decimal\<close>\<close>

text \<open>
  The default context of the module \<^verbatim>\<open>decimal\<close> has \<^verbatim>\<open>prec=28\<close> and
  \<^verbatim>\<open>rounding=ROUND_HALF_EVEN\<close>: the exact result of every arithmetic operation, the unary minus
  included, is rounded to 28 significant digits, a tie going to the even last digit. For a
  non-zero \<open>x\<close>, \<open>adjusted x\<close> is the exponent \<open>e\<close> of its leading digit
  (\<open>10 ^ e \<le> \<bar>x\<bar> < 10 ^ (e + 1)\<close>), found from the numbers of digits of numerator and
  denominator, and the 28th digit is the multiple of \<open>10 ^ (e - 27)\<close>. The exponent limits of
  the context (\<^verbatim>\<open>Emin=-999999\<close>, \<^verbatim>\<open>Emax=999999\<close>, beyond which a result is subnormal or raises
  \<^verbatim>\<open>Overflow\<close>) are not part of the model.
\<close>

definition pow10 :: "int \<Rightarrow> rat" where
  "pow10 k = (if 0 \<le> k then 10 ^ nat k else 1 / 10 ^ nat (- k))"

function digits :: "int \<Rightarrow> int" where
  "digits n = (if n < 10 then 1 else 1 + digits (n div 10))"
  by pat_completeness auto
termination
  by (relation "measure nat") auto

declare digits.simps [simp del]

definition adjusted :: "rat \<Rightarrow> int" where
  "adjusted x =
     (let (a, b) = quotient_of \<bar>x\<bar>;
          k = digits a - digits b
      in if pow10 k \<le> \<bar>x\<bar> then k else k - 1)"

definition round_half_even :: "rat \<Rightarrow> int" where
  "round_half_even y =
     (let f = \<lfloor>y\<rfloor>; d = y - of_int f
      in if d < 1 / 2 then f
         else if 1 / 2 < d then f + 1
         else if even f then f else f + 1)"

definition dec_round :: "rat \<Rightarrow> decimal" where
  "dec_round x =
     (if x = 0 then 0
      else (let q = pow10 (adjusted x - 27)
            in of_int (round_half_even (x / q)) * q))"

text \<open>\<^verbatim>\<open>a + b\<close>, \<^verbatim>\<open>a * b\<close>, \<^verbatim>\<open>a / b\<close> (for a non-zero divisor, the only one in the source being
  \<^verbatim>\<open>Decimal(365)\<close>) and \<^verbatim>\<open>-a\<close> on \<^verbatim>\<open>Decimal\<close> values.\<close>

definition dec_add :: "decimal \<Rightarrow> decimal \<Rightarrow> decimal" where
  "dec_add a b = dec_round (a + b)"

definition dec_mul :: "decimal \<Rightarrow> decimal \<Rightarrow> decimal" where
  "dec_mul a b = dec_round (a * b)"

definition dec_div :: "decimal \<Rightarrow> decimal \<Rightarrow> decimal" where
  "dec_div a b = dec_round (a / b)"

definition dec_neg :: "decimal \<Rightarrow> decimal" where
  "dec_neg a = dec_round (- a)"

subsection \<open>Enumerations of \<^verbatim>\<open>models/positions.py\<close>\<close>

datatype InstrumentType =
  LOAN_CORPORATE | LOAN_RETAIL | DEPOSIT_CORPORATE | DEPOSIT_RETAIL | BOND | EQUITY | CASH | OTHER

text \<open>The string value of each member, and the lookup \<^verbatim>\<open>InstrumentType(s)\<close> by value, which raises
  \<^verbatim>\<open>ValueError\<close> (here \<open>None\<close>) for a string that is no member's value.\<close>

fun InstrumentType_value :: "InstrumentType \<Rightarrow> string" where
  "InstrumentType_value LOAN_CORPORATE = ''loan_corporate''"
| "InstrumentType_value LOAN_RETAIL = ''loan_retail''"
| "InstrumentType_value DEPOSIT_CORPORATE = ''deposit_corporate''"
| "InstrumentType_value DEPOSIT_RETAIL = ''deposit_retail''"
| "InstrumentType_value BOND = ''bond''"
| "InstrumentType_value EQUITY = ''equity''"
| "InstrumentType_value CASH = ''cash''"
| "InstrumentType_value OTHER = ''other''"

definition InstrumentType_members :: "InstrumentType list" where
  "InstrumentType_members =
     [LOAN_CORPORATE, LOAN_RETAIL, DEPOSIT_CORPORATE, DEPOSIT_RETAIL, BOND, EQUITY, CASH, OTHER]"

definition InstrumentType_of_value :: "string \<Rightarrow> InstrumentType option" where
  "InstrumentType_of_value s = find (\<lambda>m. InstrumentType_value m = s) InstrumentType_members"

datatype CounterpartyType = CP_CORPORATE | CP_RETAIL | CP_BANK | CP_GOVERNMENT | CP_OTHER

datatype Currency = RUB | USD | EUR | CNY | GBP

datatype RateType = FIXED | FLOATING | ZERO

datatype RepricingFrequency = DAILY | MONTHLY | QUARTERLY | SEMIANNUAL | ANNUAL

subsection \<open>The position hierarchy\<close>

text \<open>
  Each class is a record and each subclass an extension of its parent's record, so that a
  function on \<open>'a loan_base_scheme\<close> is a method that \<^verbatim>\<open>CorporateLoan\<close> and \<^verbatim>\<open>RetailLoan\<close>
  inherit. Fields that no validator and no method of the embedding reads are left out
  (\<^verbatim>\<open>metadata\<close>, \<^verbatim>\<open>asset_quality\<close>, \<^verbatim>\<open>collateral_value\<close>, the early repayment and withdrawal
  options, the behavioural rates, sector, rating, age, income and segment fields).
  An entry of \<^verbatim>\<open>amortization_schedule\<close> is a dictionary with the keys \<^verbatim>\<open>date\<close>, \<^verbatim>\<open>principal\<close>
  and \<^verbatim>\<open>interest\<close>, as the field's description has it.
\<close>

record position =
  position_id :: string
  as_of_date :: date
  instrument_type :: InstrumentType
  balance_account :: string
  currency :: Currency
  amount :: decimal
  counterparty_type :: CounterpartyType

record payment =
  pay_date :: date
  pay_principal :: decimal
  pay_interest :: decimal

record balance_sheet_instrument = position +
  start_date :: date
  maturity_date :: "date option"
  rate :: "decimal option"
  rate_type :: RateType
  repricing_date :: "date option"
  repricing_frequency :: "RepricingFrequency option"
  is_amortizing :: bool
  amortization_schedule :: "payment list option"

record loan_base = balance_sheet_instrument +
  provision_amount :: decimal

record corporate_loan = loan_base +
  is_syndicated :: bool
  is_revolving :: bool
  credit_limit :: "decimal option"

record retail_loan = loan_base +
  product_type :: string
  is_mortgage :: bool

record deposit_base = balance_sheet_instrument +
  is_demand_deposit :: bool
  interest_capitalization :: bool

record corporate_deposit = deposit_base +
  is_operational :: bool

record retail_deposit = deposit_base +
  deposit_product_type :: string
  is_insured :: bool
  insured_amount :: "decimal option"

subsection \<open>Validation at construction\<close>

text \<open>
  The rules that a validator can cite. The first eleven are the \<^verbatim>\<open>ValueError\<close> messages of
  \<^verbatim>\<open>positions.py\<close>; \<open>LiteralMismatch\<close> is the error of the validation library for a field
  declared \<^verbatim>\<open>Literal[...]\<close> that holds another value.
\<close>

datatype validation_rule =
    AmountZero
  | PositionIdEmpty
  | StartAfterAsOf
  | MaturityNotAfterStart
  | RepricingBeforeAsOf
  | FloatingRequiresFrequency
  | FloatingRequiresDate
  | ProvisionNegative
  | RevolvingRequiresLimit
  | ProductTypeNotAllowed
  | MortgageRequiresProductType
  | LiteralMismatch

text \<open>
  \<^verbatim>\<open>str.strip()\<close> and \<^verbatim>\<open>str.lower()\<close> on strings of code points below 256. The whitespace that
  \<^verbatim>\<open>strip\<close> removes there is the tab to carriage return range, the four separators
  \<open>0x1C\<close> to \<open>0x1F\<close>, the space, the next-line control \<open>0x85\<close> and the no-break space \<open>0xA0\<close>.
  \<^verbatim>\<open>lower\<close> adds 32 to the letters \<open>A\<close> to \<open>Z\<close> and to the Latin-1 capitals \<open>0xC0\<close> to \<open>0xDE\<close>
  other than the multiplication sign \<open>0xD7\<close>.
\<close>

definition is_space :: "char \<Rightarrow> bool" where
  "is_space c = (c \<in> set [CHR 0x20, CHR 0x09, CHR 0x0A, CHR 0x0B, CHR 0x0C, CHR 0x0D,
                            CHR 0x1C, CHR 0x1D, CHR 0x1E, CHR 0x1F, CHR 0x85, CHR 0xA0])"

definition strip :: "string \<Rightarrow> string" where
  "strip s = rev (dropWhile is_space (rev (dropWhile is_space s)))"

definition lower_char :: "char \<Rightarrow> char" where
  "lower_char c =
     (let n = (of_char c :: nat)
      in if (65 \<le> n \<and> n \<le> 90) \<or> (192 \<le> n \<and> n \<le> 222 \<and> n \<noteq> 215)
         then char_of (n + 32) else c)"

definition lower :: "string \<Rightarrow> string" where
  "lower s = map lower_char s"

text \<open>Field validators: \<open>Inl\<close> is the raised \<^verbatim>\<open>ValueError\<close>, \<open>Inr\<close> the value kept for the field.\<close>

definition amount_must_be_nonzero :: "decimal \<Rightarrow> validation_rule + decimal" where
  "amount_must_be_nonzero v = (if v = 0 then Inl AmountZero else Inr v)"

definition position_id_must_be_nonempty :: "string \<Rightarrow> validation_rule + string" where
  "position_id_must_be_nonempty v =
     (if v = [] \<or> strip v = [] then Inl PositionIdEmpty else Inr (strip v))"

definition provision_cannot_be_negative :: "decimal \<Rightarrow> validation_rule + decimal" where
  "provision_cannot_be_negative v = (if v < 0 then Inl ProvisionNegative else Inr v)"

definition RetailLoan_validate_product_type :: "string \<Rightarrow> validation_rule + string" where
  "RetailLoan_validate_product_type v =
     (if lower v \<notin> set [''mortgage'', ''consumer'', ''auto'', ''credit_card'', ''other'']
      then Inl ProductTypeNotAllowed else Inr (lower v))"

definition RetailDeposit_validate_product_type :: "string \<Rightarrow> validation_rule + string" where
  "RetailDeposit_validate_product_type v =
     (if lower v \<notin> set [''savings'', ''time_deposit'', ''current_account'', ''other'']
      then Inl ProductTypeNotAllowed else Inr (lower v))"

definition literal_field :: "'v \<Rightarrow> 'v \<Rightarrow> validation_rule + 'v" where
  "literal_field expected v = (if v = expected then Inr v else Inl LiteralMismatch)"

text \<open>Model validators (\<^verbatim>\<open>mode='after'\<close>): they see the instance whose fields have passed.\<close>

definition validate_dates ::
  "'a balance_sheet_instrument_scheme \<Rightarrow> validation_rule + 'a balance_sheet_instrument_scheme" where
  "validate_dates self =
     (if start_date self > as_of_date self then Inl StartAfterAsOf
      else if (case maturity_date self of None \<Rightarrow> False | Some m \<Rightarrow> m \<le> start_date self)
        then Inl MaturityNotAfterStart
      else if (case repricing_date self of None \<Rightarrow> False | Some r \<Rightarrow> r < as_of_date self)
        then Inl RepricingBeforeAsOf
      else Inr self)"

definition validate_rate_logic ::
  "'a balance_sheet_instrument_scheme \<Rightarrow> validation_rule + 'a balance_sheet_instrument_scheme" where
  "validate_rate_logic self =
     (if rate_type self = FLOATING then
        (if repricing_frequency self = None then Inl FloatingRequiresFrequency
         else if repricing_date self = None then Inl FloatingRequiresDate
         else Inr self)
      else Inr self)"

definition validate_revolving_logic ::
  "'a corporate_loan_scheme \<Rightarrow> validation_rule + 'a corporate_loan_scheme" where
  "validate_revolving_logic self =
     (if is_revolving self \<and> (case credit_limit self of None \<Rightarrow> True | Some c \<Rightarrow> c = 0)
      then Inl RevolvingRequiresLimit else Inr self)"

definition validate_mortgage_logic ::
  "'a retail_loan_scheme \<Rightarrow> validation_rule + 'a retail_loan_scheme" where
  "validate_mortgage_logic self =
     (if is_mortgage self \<and> product_type self \<noteq> ''mortgage''
      then Inl MortgageRequiresProductType else Inr self)"

definition validate_insurance_logic ::
  "'a retail_deposit_scheme \<Rightarrow> validation_rule + 'a retail_deposit_scheme" where
  "validate_insurance_logic self =
     (if is_insured self \<and> insured_amount self = None \<and> amount self \<noteq> 0
      then Inr (self\<lparr>insured_amount := Some (min (amount self) 1400000)\<rparr>)
      else Inr self)"

text \<open>
  Construction as the validation library runs it. The field validators run first, one field
  after the other, and every failure is collected; if any field failed, construction raises
  with the collected messages and no model validator runs. Otherwise the model validators run
  in the order of their definition, those of the parent class first, and the first one that
  raises ends construction with its single message.
\<close>

definition collect :: "validation_rule + 'v \<Rightarrow> validation_rule list" where
  "collect r = (case r of Inl e \<Rightarrow> [e] | Inr v \<Rightarrow> [])"

fun run_after :: "('a \<Rightarrow> validation_rule + 'a) list \<Rightarrow> 'a \<Rightarrow> validation_rule list + 'a" where
  "run_after [] self = Inr self"
| "run_after (v # vs) self = (case v self of Inl e \<Rightarrow> Inl [e] | Inr self' \<Rightarrow> run_after vs self')"

definition model_validate ::
  "validation_rule list \<Rightarrow> ('a \<Rightarrow> validation_rule + 'a) list \<Rightarrow> 'a \<Rightarrow> validation_rule list + 'a" where
  "model_validate field_errors after_validators self =
     (if field_errors \<noteq> [] then Inl field_errors else run_after after_validators self)"

text \<open>
  What every subclass of \<^verbatim>\<open>BalanceSheetInstrument\<close> inherits: the two field validators of
  \<^verbatim>\<open>Position\<close>, then \<^verbatim>\<open>validate_dates\<close> and \<^verbatim>\<open>validate_rate_logic\<close>. The subclass adds the
  messages of its own fields and its own model validators, which run last. The instance that
  the model validators see has the stripped \<^verbatim>\<open>position_id\<close>. In the list of collected
  messages the model puts those of the subclass last.
\<close>

definition Position_field_errors :: "'a position_scheme \<Rightarrow> validation_rule list" where
  "Position_field_errors x =
     collect (position_id_must_be_nonempty (position_id x)) @ collect (amount_must_be_nonzero (amount x))"

definition BalanceSheetInstrument_init ::
  "validation_rule list
   \<Rightarrow> ('a balance_sheet_instrument_scheme \<Rightarrow> validation_rule + 'a balance_sheet_instrument_scheme) list
   \<Rightarrow> 'a balance_sheet_instrument_scheme
   \<Rightarrow> validation_rule list + 'a balance_sheet_instrument_scheme" where
  "BalanceSheetInstrument_init subclass_errors subclass_validators x =
     model_validate (Position_field_errors x @ subclass_errors)
       (validate_dates # validate_rate_logic # subclass_validators)
       (x\<lparr>position_id := strip (position_id x)\<rparr>)"

definition CorporateLoan_init :: "corporate_loan \<Rightarrow> validation_rule list + corporate_loan" where
  "CorporateLoan_init x =
     BalanceSheetInstrument_init
       (collect (literal_field LOAN_CORPORATE (instrument_type x))
        @ collect (literal_field CP_CORPORATE (counterparty_type x))
        @ collect (provision_cannot_be_negative (provision_amount x)))
       [validate_revolving_logic] x"

definition RetailLoan_init :: "retail_loan \<Rightarrow> validation_rule list + retail_loan" where
  "RetailLoan_init x =
     BalanceSheetInstrument_init
       (collect (literal_field LOAN_RETAIL (instrument_type x))
        @ collect (literal_field CP_RETAIL (counterparty_type x))
        @ collect (provision_cannot_be_negative (provision_amount x))
        @ collect (RetailLoan_validate_product_type (product_type x)))
       [validate_mortgage_logic] (x\<lparr>product_type := lower (product_type x)\<rparr>)"

definition CorporateDeposit_init :: "corporate_deposit \<Rightarrow> validation_rule list + corporate_deposit" where
  "CorporateDeposit_init x =
     BalanceSheetInstrument_init
       (collect (literal_field DEPOSIT_CORPORATE (instrument_type x))
        @ collect (literal_field CP_CORPORATE (counterparty_type x)))
       [] x"

definition RetailDeposit_init :: "retail_deposit \<Rightarrow> validation_rule list + retail_deposit" where
  "RetailDeposit_init x =
     BalanceSheetInstrument_init
       (collect (literal_field DEPOSIT_RETAIL (instrument_type x))
        @ collect (literal_field CP_RETAIL (counterparty_type x))
        @ collect (RetailDeposit_validate_product_type (deposit_product_type x)))
       [validate_insurance_logic] (x\<lparr>deposit_product_type := lower (deposit_product_type x)\<rparr>)"

text \<open>
  The construction invariants as the specification words them, to be compared with the
  validators above: the amount is non-zero and the trimmed \<^verbatim>\<open>position_id\<close> is non-empty;
  \<^verbatim>\<open>start_date <= as_of_date\<close>; a present \<^verbatim>\<open>maturity_date\<close> is strictly after \<^verbatim>\<open>start_date\<close>; a
  present \<^verbatim>\<open>repricing_date\<close> is not before \<^verbatim>\<open>as_of_date\<close>; a floating rate has both
  \<^verbatim>\<open>repricing_frequency\<close> and \<^verbatim>\<open>repricing_date\<close>.
\<close>

definition construction_invariants :: "'a balance_sheet_instrument_scheme \<Rightarrow> bool" where
  "construction_invariants x =
     (amount x \<noteq> 0 \<and> strip (position_id x) \<noteq> []
      \<and> start_date x \<le> as_of_date x
      \<and> (case maturity_date x of None \<Rightarrow> True | Some m \<Rightarrow> start_date x < m)
      \<and> (case repricing_date x of None \<Rightarrow> True | Some r \<Rightarrow> as_of_date x \<le> r)
      \<and> (if rate_type x = FLOATING
          then repricing_frequency x \<noteq> None \<and> repricing_date x \<noteq> None else True))"

text \<open>
  The invariants of the four concrete classes, as their validators check them: the fixed
  \<^verbatim>\<open>instrument_type\<close> and \<^verbatim>\<open>counterparty_type\<close>; for loans a provision that is not negative;
  for a revolving corporate loan a \<^verbatim>\<open>credit_limit\<close> that is truthy, that is present and not
  zero; for the retail classes a \<^verbatim>\<open>product_type\<close> whose lower case is an allowed one, and
  \<^verbatim>\<open>mortgage\<close> if the loan is flagged as a mortgage.
\<close>

definition CorporateLoan_invariants :: "corporate_loan \<Rightarrow> bool" where
  "CorporateLoan_invariants x =
     (construction_invariants x
      \<and> instrument_type x = LOAN_CORPORATE \<and> counterparty_type x = CP_CORPORATE
      \<and> 0 \<le> provision_amount x
      \<and> (if is_revolving x
          then (case credit_limit x of None \<Rightarrow> False | Some c \<Rightarrow> c \<noteq> 0) else True))"

definition RetailLoan_invariants :: "retail_loan \<Rightarrow> bool" where
  "RetailLoan_invariants x =
     (construction_invariants x
      \<and> instrument_type x = LOAN_RETAIL \<and> counterparty_type x = CP_RETAIL
      \<and> 0 \<le> provision_amount x
      \<and> lower (product_type x) \<in> set [''mortgage'', ''consumer'', ''auto'', ''credit_card'', ''other'']
      \<and> (if is_mortgage x then lower (product_type x) = ''mortgage'' else True))"

definition CorporateDeposit_invariants :: "corporate_deposit \<Rightarrow> bool" where
  "CorporateDeposit_invariants x =
     (construction_invariants x
      \<and> instrument_type x = DEPOSIT_CORPORATE \<and> counterparty_type x = CP_CORPORATE)"

definition RetailDeposit_invariants :: "retail_deposit \<Rightarrow> bool" where
  "RetailDeposit_invariants x =
     (construction_invariants x
      \<and> instrument_type x = DEPOSIT_RETAIL \<and> counterparty_type x = CP_RETAIL
      \<and> lower (deposit_product_type x)
           \<in> set [''savings'', ''time_deposit'', ''current_account'', ''other''])"

subsection \<open>Cash flows of loans and deposits\<close>

text \<open>A cash flow is a dictionary with the keys \<^verbatim>\<open>date\<close>, \<^verbatim>\<open>principal\<close>, \<^verbatim>\<open>interest\<close>, \<^verbatim>\<open>total\<close>.\<close>

record cash_flow =
  cf_date :: date
  cf_principal :: decimal
  cf_interest :: decimal
  cf_total :: decimal

text \<open>\<^verbatim>\<open>LoanBase\<close> and \<^verbatim>\<open>DepositBase\<close> both return \<^verbatim>\<open>maturity_date\<close> as the effective maturity.\<close>

definition get_effective_maturity :: "'a balance_sheet_instrument_scheme \<Rightarrow> date option" where
  "get_effective_maturity self = maturity_date self"

definition get_time_to_maturity_years :: "'a balance_sheet_instrument_scheme \<Rightarrow> decimal option" where
  "get_time_to_maturity_years self =
     (case get_effective_maturity self of
        None \<Rightarrow> None
      | Some effective_maturity \<Rightarrow>
          (let days = effective_maturity - as_of_date self
           in Some (dec_div (of_int days) (of_int 365))))"

text \<open>The interest of the bullet branch, which \<^verbatim>\<open>LoanBase.get_cash_flows\<close> and
  \<^verbatim>\<open>DepositBase.get_cash_flows\<close> compute with the same statements: \<^verbatim>\<open>if self.rate\<close> is false for
  \<^verbatim>\<open>None\<close> and for a zero rate, \<^verbatim>\<open>if time_to_maturity\<close> is false for \<^verbatim>\<open>None\<close> and for zero years.
  The product \<^verbatim>\<open>self.amount * self.rate * time_to_maturity\<close> is two multiplications, from the
  left.\<close>

definition bullet_interest :: "'a balance_sheet_instrument_scheme \<Rightarrow> decimal" where
  "bullet_interest self =
     (case rate self of
        None \<Rightarrow> 0
      | Some r \<Rightarrow>
          if r \<noteq> 0 then
            (case get_time_to_maturity_years self of
               None \<Rightarrow> 0
             | Some time_to_maturity \<Rightarrow>
                 if time_to_maturity \<noteq> 0
                 then dec_mul (dec_mul (amount self) r) time_to_maturity else 0)
          else 0)"

text \<open>The loop over the amortization schedule: entries before \<^verbatim>\<open>as_of_date\<close> are skipped, the
  others are appended in the order of the schedule.\<close>

fun schedule_cash_flows :: "date \<Rightarrow> payment list \<Rightarrow> cash_flow list" where
  "schedule_cash_flows d [] = []"
| "schedule_cash_flows d (p # ps) =
     (if pay_date p \<ge> d
      then \<lparr>cf_date = pay_date p, cf_principal = pay_principal p, cf_interest = pay_interest p,
            cf_total = dec_add (pay_principal p) (pay_interest p)\<rparr> # schedule_cash_flows d ps
      else schedule_cash_flows d ps)"

definition LoanBase_get_cash_flows :: "'a loan_base_scheme \<Rightarrow> cash_flow list" where
  "LoanBase_get_cash_flows self =
     (case maturity_date self of
        None \<Rightarrow> []
      | Some m \<Rightarrow>
          (if is_amortizing self \<and> amortization_schedule self \<noteq> None
                \<and> amortization_schedule self \<noteq> Some []
           then schedule_cash_flows (as_of_date self)
                  (case amortization_schedule self of None \<Rightarrow> [] | Some schedule \<Rightarrow> schedule)
           else
             (let interest = bullet_interest self
              in [\<lparr>cf_date = m, cf_principal = amount self, cf_interest = interest,
                    cf_total = dec_add (amount self) interest\<rparr>])))"

definition DepositBase_get_cash_flows :: "'a deposit_base_scheme \<Rightarrow> cash_flow list" where
  "DepositBase_get_cash_flows self =
     (if is_demand_deposit self \<and> maturity_date self = None then []
      else
        (case maturity_date self of
           None \<Rightarrow> []
         | Some m \<Rightarrow>
             (let interest = bullet_interest self
              in [\<lparr>cf_date = m, cf_principal = dec_neg (amount self),
                    cf_interest = dec_neg interest,
                    cf_total = dec_neg (dec_add (amount self) interest)\<rparr>])))"

subsection \<open>The factory\<close>

text \<open>
  The value found under the key \<^verbatim>\<open>instrument_type\<close> of the input mapping: nothing or \<^verbatim>\<open>None\<close>, a
  plain string, or a member of the enumeration (itself a string, through \<^verbatim>\<open>str, Enum\<close>).
  The classes of the mapping are values of \<open>position_class\<close>; calling one on the input is
  the parameter \<open>call_class\<close>, whose failure is the validation error of that class.
\<close>

datatype pyval = PNone | PStr string | PEnum InstrumentType

datatype position_class = CorporateLoan | RetailLoan | CorporateDeposit | RetailDeposit

datatype 'e factory_error =
    InstrumentTypeRequired
  | UnknownInstrumentType string
  | NoClassMapping InstrumentType
  | ValidationError 'e

definition class_mapping :: "(InstrumentType \<times> position_class) list" where
  "class_mapping =
     [(LOAN_CORPORATE, CorporateLoan),
      (LOAN_RETAIL, RetailLoan),
      (DEPOSIT_CORPORATE, CorporateDeposit),
      (DEPOSIT_RETAIL, RetailDeposit)]"

definition falsy :: "pyval \<Rightarrow> bool" where
  "falsy v = (case v of PNone \<Rightarrow> True | PStr s \<Rightarrow> s = [] | PEnum m \<Rightarrow> InstrumentType_value m = [])"

definition create_position_from_dict ::
  "(position_class \<Rightarrow> (string \<rightharpoonup> pyval) \<Rightarrow> 'e + 'p) \<Rightarrow> (string \<rightharpoonup> pyval) \<Rightarrow> 'e factory_error + 'p" where
  "create_position_from_dict call_class data =
     (let instrument_type = (case data ''instrument_type'' of None \<Rightarrow> PNone | Some v \<Rightarrow> v)
      in if falsy instrument_type then Inl InstrumentTypeRequired
         else
           (case (case instrument_type of
                    PStr s \<Rightarrow> (case InstrumentType_of_value s of
                                 None \<Rightarrow> Inl (UnknownInstrumentType s)
                               | Some m \<Rightarrow> Inr m)
                  | PEnum m \<Rightarrow> Inr m
                  | PNone \<Rightarrow> Inl InstrumentTypeRequired) of
              Inl e \<Rightarrow> Inl e
            | Inr m \<Rightarrow>
                (case map_of class_mapping m of
                   None \<Rightarrow> Inl (NoClassMapping m)
                 | Some position_class \<Rightarrow>
                     (case call_class position_class data of
                        Inl e \<Rightarrow> Inl (ValidationError e)
                      | Inr p \<Rightarrow> Inr p))))"

subsection \<open>The bond\<close>

datatype CouponFrequency = CF_ZERO | CF_QUARTERLY | CF_SEMIANNUAL | CF_ANNUAL

record bond = balance_sheet_instrument +
  face_value :: decimal
  coupon_rate :: decimal
  coupon_frequency :: CouponFrequency
  next_coupon_date :: "date option"

record bond_cash_flow =
  bcf_date :: date
  bcf_principal :: decimal
  bcf_interest :: decimal
  bcf_type :: string

definition payments_per_year :: "CouponFrequency \<Rightarrow> decimal" where
  "payments_per_year f = (case f of CF_ZERO \<Rightarrow> 0 | CF_QUARTERLY \<Rightarrow> 4 | CF_SEMIANNUAL \<Rightarrow> 2 | CF_ANNUAL \<Rightarrow> 1)"

text \<open>
  Modelled from the spec: the class \<^verbatim>\<open>Bond\<close> and its method \<^verbatim>\<open>get_cash_flows\<close>, which
  \<^verbatim>\<open>tests/unit/test_bonds.py\<close> and \<^verbatim>\<open>data/loaders/csv_loader.py\<close> import from
  \<^verbatim>\<open>models.positions\<close> and which \<^verbatim>\<open>models/positions.py\<close> does not define.
  The spec: a zero-coupon bond has a single record at \<^verbatim>\<open>maturity_date\<close> with
  \<^verbatim>\<open>principal = amount\<close>, \<^verbatim>\<open>interest = 0\<close>, tagged \<^verbatim>\<open>type = "maturity"\<close>; a coupon-bearing bond has
  one record per coupon date, tagged \<^verbatim>\<open>"coupon"\<close>, with \<^verbatim>\<open>principal = 0\<close> and
  \<^verbatim>\<open>interest = face_value * coupon_rate / payments_per_year\<close> scaled by
  \<^verbatim>\<open>number_of_bonds = amount / face_value\<close>, then the maturity record, appended last.
  The coupon dates (from \<^verbatim>\<open>next_coupon_date\<close> to \<^verbatim>\<open>maturity_date\<close> in steps of calendar
  months) are the parameter \<open>coupon_dates\<close>. The spec gives no result for a bond without
  \<^verbatim>\<open>maturity_date\<close>: the model has \<open>None\<close> there.
\<close>

definition Bond_get_cash_flows :: "date list \<Rightarrow> 'a bond_scheme \<Rightarrow> bond_cash_flow list option" where
  "Bond_get_cash_flows coupon_dates self =
     (case maturity_date self of
        None \<Rightarrow> None
      | Some m \<Rightarrow>
          (let maturity_record =
                 \<lparr>bcf_date = m, bcf_principal = amount self, bcf_interest = 0, bcf_type = ''maturity''\<rparr>
           in if coupon_frequency self = CF_ZERO then Some [maturity_record]
              else
                (let coupon_payment_amount =
                       face_value self * coupon_rate self / payments_per_year (coupon_frequency self);
                     number_of_bonds = amount self / face_value self
                 in Some (map (\<lambda>d. \<lparr>bcf_date = d, bcf_principal = 0,
                                      bcf_interest = coupon_payment_amount * number_of_bonds,
                                      bcf_type = ''coupon''\<rparr>) coupon_dates
                          @ [maturity_record]))))"

subsection \<open>The bucket table of \<^verbatim>\<open>LiquidityGapAnalyzer\<close>\<close>

text \<open>A bucket is the tuple \<^verbatim>\<open>(bucket_name, days_from, days_to)\<close>; \<^verbatim>\<open>days_to = None\<close> is infinity.\<close>

type_synonym bucket = "string \<times> int \<times> int option"

definition define_buckets :: "bucket list" where
  "define_buckets =
     [(''Overnight'', 0, Some 0),
      (''1-7 days'', 1, Some 7),
      (''8-30 days'', 8, Some 30),
      (''1-3 months'', 31, Some 90),
      (''3-6 months'', 91, Some 180),
      (''6-12 months'', 181, Some 365),
      (''1-2 years'', 366, Some 730),
      (''2-3 years'', 731, Some 1095),
      (''3-5 years'', 1096, Some 1825),
      (''5+ years'', 1826, None)]"

text \<open>The test that the loop of \<^verbatim>\<open>_get_bucket\<close> applies to one bucket.\<close>

fun bucket_matches :: "bucket \<Rightarrow> int \<Rightarrow> bool" where
  "bucket_matches (bucket_name, days_from, None) d = (d \<ge> days_from)"
| "bucket_matches (bucket_name, days_from, Some days_to) d = (days_from \<le> d \<and> d \<le> days_to)"

text \<open>The \<^verbatim>\<open>for\<close> loop of \<^verbatim>\<open>_get_bucket\<close>: the first matching bucket wins, and falling off the
  end of the table gives \<^verbatim>\<open>'Overdue'\<close>.\<close>

fun get_bucket_loop :: "bucket list \<Rightarrow> int \<Rightarrow> string" where
  "get_bucket_loop [] d = ''Overdue''"
| "get_bucket_loop ((bucket_name, days_from, days_to) # bs) d =
     (case days_to of
        None \<Rightarrow> if d \<ge> days_from then bucket_name else get_bucket_loop bs d
      | Some t \<Rightarrow> if days_from \<le> d \<and> d \<le> t then bucket_name else get_bucket_loop bs d)"

definition get_bucket :: "bucket list \<Rightarrow> int option \<Rightarrow> string" where
  "get_bucket buckets days_to_maturity =
     (case days_to_maturity of
        None \<Rightarrow> ''5+ years''
      | Some d \<Rightarrow> get_bucket_loop buckets d)"

subsection \<open>The liquidity gap analyzer\<close>

text \<open>
  The analyzer holds a list of positions of any class. It reads \<^verbatim>\<open>position_id\<close>,
  \<^verbatim>\<open>instrument_type\<close>, \<^verbatim>\<open>currency\<close> and \<^verbatim>\<open>amount\<close>, and \<^verbatim>\<open>maturity_date\<close> through
  \<^verbatim>\<open>getattr(pos, 'maturity_date', None)\<close>, which is \<^verbatim>\<open>None\<close> for a plain \<^verbatim>\<open>Position\<close>.
\<close>

datatype any_position =
    APosition position
  | ACorporateLoan corporate_loan
  | ARetailLoan retail_loan
  | ACorporateDeposit corporate_deposit
  | ARetailDeposit retail_deposit

fun pos_instrument_type :: "any_position \<Rightarrow> InstrumentType" where
  "pos_instrument_type (APosition p) = instrument_type p"
| "pos_instrument_type (ACorporateLoan p) = instrument_type p"
| "pos_instrument_type (ARetailLoan p) = instrument_type p"
| "pos_instrument_type (ACorporateDeposit p) = instrument_type p"
| "pos_instrument_type (ARetailDeposit p) = instrument_type p"

fun pos_currency :: "any_position \<Rightarrow> Currency" where
  "pos_currency (APosition p) = currency p"
| "pos_currency (ACorporateLoan p) = currency p"
| "pos_currency (ARetailLoan p) = currency p"
| "pos_currency (ACorporateDeposit p) = currency p"
| "pos_currency (ARetailDeposit p) = currency p"

fun pos_amount :: "any_position \<Rightarrow> decimal" where
  "pos_amount (APosition p) = amount p"
| "pos_amount (ACorporateLoan p) = amount p"
| "pos_amount (ARetailLoan p) = amount p"
| "pos_amount (ACorporateDeposit p) = amount p"
| "pos_amount (ARetailDeposit p) = amount p"

fun pos_maturity_date :: "any_position \<Rightarrow> date option" where
  "pos_maturity_date (APosition p) = None"
| "pos_maturity_date (ACorporateLoan p) = maturity_date p"
| "pos_maturity_date (ARetailLoan p) = maturity_date p"
| "pos_maturity_date (ACorporateDeposit p) = maturity_date p"
| "pos_maturity_date (ARetailDeposit p) = maturity_date p"

text \<open>
  The bucketed gap table is a data frame, kept by columns: the row labels \<open>index\<close> and one list
  of values per column, all of the same length. Only the columns \<^verbatim>\<open>Asset\<close>, \<^verbatim>\<open>Liability\<close>,
  \<^verbatim>\<open>Gap\<close> and \<^verbatim>\<open>Cumulative Gap\<close> are kept; a column \<^verbatim>\<open>Unknown\<close>, present when a position has
  no classification, is read by nothing. The second pivot (\<^verbatim>\<open>full_gap\<close>) is left out.
\<close>

record gap_frame =
  index :: "string list"
  Asset :: "decimal list"
  Liability :: "decimal list"
  Gap :: "decimal list"
  Cumulative_Gap :: "decimal list"

record analyzer =
  self_positions :: "any_position list"
  self_as_of_date :: date
  self_fx_rates :: "(Currency \<times> decimal) list"
  self_base_currency :: Currency
  self_buckets :: "bucket list"
  self_gap_df :: "gap_frame option"

definition DEFAULT_FX_RATES :: "(Currency \<times> decimal) list" where
  "DEFAULT_FX_RATES = [(RUB, 1), (USD, 95), (EUR, 105), (CNY, 13)]"

text \<open>\<^verbatim>\<open>__init__\<close>; \<open>today\<close> is \<^verbatim>\<open>date.today()\<close>. An empty dictionary of rates is falsy, so the
  defaults replace it.\<close>

definition LiquidityGapAnalyzer_init ::
  "date \<Rightarrow> any_position list \<Rightarrow> date option \<Rightarrow> (Currency \<times> decimal) list option \<Rightarrow> Currency
   \<Rightarrow> analyzer" where
  "LiquidityGapAnalyzer_init today positions as_of fx_rates base_currency =
     \<lparr>self_positions = positions,
      self_as_of_date = (case as_of of None \<Rightarrow> today | Some d \<Rightarrow> d),
      self_fx_rates = (case fx_rates of None \<Rightarrow> DEFAULT_FX_RATES
                       | Some r \<Rightarrow> if r = [] then DEFAULT_FX_RATES else r),
      self_base_currency = base_currency,
      self_buckets = define_buckets,
      self_gap_df = None\<rparr>"

definition calculate_days_to_maturity :: "analyzer \<Rightarrow> date option \<Rightarrow> int option" where
  "calculate_days_to_maturity self maturity =
     (case maturity of None \<Rightarrow> None | Some m \<Rightarrow> Some (m - self_as_of_date self))"

definition convert_to_base_currency :: "analyzer \<Rightarrow> decimal \<Rightarrow> Currency \<Rightarrow> decimal" where
  "convert_to_base_currency self amt cur =
     (if cur = self_base_currency self then amt
      else
        (let fx_rate = (case map_of (self_fx_rates self) cur of None \<Rightarrow> 1 | Some r \<Rightarrow> r)
         in amt * fx_rate))"

definition classify_position :: "any_position \<Rightarrow> string" where
  "classify_position position =
     (if pos_instrument_type position \<in> set [LOAN_CORPORATE, LOAN_RETAIL, BOND] then ''Asset''
      else if pos_instrument_type position \<in> set [DEPOSIT_CORPORATE, DEPOSIT_RETAIL] then ''Liability''
      else ''Unknown'')"

text \<open>One row of the frame \<^verbatim>\<open>df\<close> that \<^verbatim>\<open>calculate_gap\<close> collects, with the three columns that
  the pivot reads.\<close>

record data_row =
  dr_bucket :: string
  dr_classification :: string
  dr_amount_base :: decimal

definition gap_data :: "analyzer \<Rightarrow> data_row list" where
  "gap_data self =
     map (\<lambda>pos.
            (let days_to_maturity = calculate_days_to_maturity self (pos_maturity_date pos);
                 bucket = get_bucket (self_buckets self) days_to_maturity;
                 classification = classify_position pos;
                 amount_base = convert_to_base_currency self (pos_amount pos) (pos_currency pos)
             in \<lparr>dr_bucket = bucket, dr_classification = classification,
                  dr_amount_base = amount_base\<rparr>))
         (self_positions self)"

text \<open>
  A cell of \<^verbatim>\<open>pivot_table(values='amount_base', index='bucket', columns='classification',
  aggfunc='sum', fill_value=0)\<close>: the sum of \<^verbatim>\<open>amount_base\<close> over the rows of the bucket and the
  classification. A pair without rows is filled with \<open>0\<close>, and a column \<^verbatim>\<open>Asset\<close> or
  \<^verbatim>\<open>Liability\<close> that the pivot lacks is set to \<open>0\<close> by \<^verbatim>\<open>calculate_gap\<close>: the empty sum in both
  cases.
\<close>

definition pivot_cell :: "data_row list \<Rightarrow> string \<Rightarrow> string \<Rightarrow> decimal" where
  "pivot_cell df bucket classification =
     sum_list (map dr_amount_base
       (filter (\<lambda>r. dr_bucket r = bucket \<and> dr_classification r = classification) df))"

text \<open>\<^verbatim>\<open>Series.cumsum()\<close>: the running sum, from the accumulator \<open>acc\<close>.\<close>

fun cumsum :: "decimal \<Rightarrow> decimal list \<Rightarrow> decimal list" where
  "cumsum acc [] = []"
| "cumsum acc (x # xs) = (acc + x) # cumsum (acc + x) xs"

datatype py_error = KeyError string | TypeError

text \<open>
  \<^verbatim>\<open>calculate_gap\<close>. On an empty list of positions the frame \<^verbatim>\<open>df\<close> has no columns and
  \<^verbatim>\<open>pivot_table\<close> raises \<^verbatim>\<open>KeyError('amount_base')\<close>. Otherwise the rows of the pivot are the
  buckets that hold a position, in the order of \<^verbatim>\<open>bucket_order\<close>; the columns \<^verbatim>\<open>Gap\<close> and
  \<^verbatim>\<open>Cumulative Gap\<close> are computed from the columns \<^verbatim>\<open>Asset\<close> and \<^verbatim>\<open>Liability\<close>; the row \<^verbatim>\<open>TOTAL\<close>
  is appended; the result is stored in \<^verbatim>\<open>self.gap_df\<close> and returned.
\<close>

definition calculate_gap :: "analyzer \<Rightarrow> py_error + gap_frame \<times> analyzer" where
  "calculate_gap self =
     (let df = gap_data self
      in if df = [] then Inl (KeyError ''amount_base'')
         else
           (let bucket_order = map fst (self_buckets self) @ [''Overdue''];
                pivot_index = filter (\<lambda>b. b \<in> set (map dr_bucket df)) bucket_order;
                asset = map (\<lambda>b. pivot_cell df b ''Asset'') pivot_index;
                liability = map (\<lambda>b. pivot_cell df b ''Liability'') pivot_index;
                gap = map (\<lambda>(a, l). a - l) (zip asset liability);
                cumulative_gap = cumsum 0 gap;
                pivot = \<lparr>index = pivot_index @ [''TOTAL''],
                         Asset = asset @ [sum_list asset],
                         Liability = liability @ [sum_list liability],
                         Gap = gap @ [sum_list gap],
                         Cumulative_Gap = cumulative_gap
                           @ [if length pivot_index > 0 then last cumulative_gap else 0]\<rparr>
            in Inr (pivot, self\<lparr>self_gap_df := Some pivot\<rparr>)))"









subsection \<open>Positions of the unit tests\<close>

text \<open>
  The fixtures of \<^verbatim>\<open>tests/unit/test_positions.py\<close> and \<^verbatim>\<open>tests/unit/test_bonds.py\<close>, with the
  defaults of the classes filled in. The dates are 2024-12-01 = 739221 (the \<^verbatim>\<open>as_of_date\<close>),
  2024-01-01 = 738886, 2027-01-01 = 739982, 2024-09-01 = 739130, 2025-03-01 = 739311,
  2022-03-15 = 738229, 2022-01-01 = 738156, 2020-06-01 = 737577 and 2040-06-01 = 744882.
\<close>

definition corporate_loan_data :: corporate_loan where
  "corporate_loan_data =
     \<lparr>position_id = ''TEST_CORP_LOAN_001'', as_of_date = 739221, instrument_type = LOAN_CORPORATE,
      balance_account = ''45203'', currency = RUB, amount = 10000000,
      counterparty_type = CP_CORPORATE,
      start_date = 738886, maturity_date = Some 739982, rate = Some (15 / 100), rate_type = FIXED,
      repricing_date = None, repricing_frequency = None, is_amortizing = False,
      amortization_schedule = None,
      provision_amount = 0,
      is_syndicated = False, is_revolving = False, credit_limit = None\<rparr>"

definition retail_loan_data :: retail_loan where
  "retail_loan_data =
     \<lparr>position_id = ''TEST_RETAIL_LOAN_001'', as_of_date = 739221, instrument_type = LOAN_RETAIL,
      balance_account = ''45507'', currency = RUB, amount = 3000000,
      counterparty_type = CP_RETAIL,
      start_date = 737577, maturity_date = Some 744882, rate = Some (95 / 1000), rate_type = FIXED,
      repricing_date = None, repricing_frequency = None, is_amortizing = False,
      amortization_schedule = None,
      provision_amount = 0,
      product_type = ''mortgage'', is_mortgage = True\<rparr>"

definition corporate_deposit_data :: corporate_deposit where
  "corporate_deposit_data =
     \<lparr>position_id = ''TEST'', as_of_date = 739221, instrument_type = DEPOSIT_CORPORATE,
      balance_account = ''42301'', currency = RUB, amount = 10000000,
      counterparty_type = CP_CORPORATE,
      start_date = 739130, maturity_date = Some 739311, rate = Some (10 / 100), rate_type = FIXED,
      repricing_date = None, repricing_frequency = None, is_amortizing = False,
      amortization_schedule = None,
      is_demand_deposit = False, interest_capitalization = False,
      is_operational = False\<rparr>"

definition retail_deposit_data :: retail_deposit where
  "retail_deposit_data =
     \<lparr>position_id = ''TEST_RETAIL_DEP_001'', as_of_date = 739221, instrument_type = DEPOSIT_RETAIL,
      balance_account = ''42307'', currency = RUB, amount = 500000,
      counterparty_type = CP_RETAIL,
      start_date = 738229, maturity_date = None, rate = Some (5 / 1000), rate_type = FIXED,
      repricing_date = None, repricing_frequency = None, is_amortizing = False,
      amortization_schedule = None,
      is_demand_deposit = True, interest_capitalization = False,
      deposit_product_type = ''current_account'', is_insured = True, insured_amount = None\<rparr>"

definition zero_coupon_bond_data :: bond where
  "zero_coupon_bond_data =
     \<lparr>position_id = ''BOND_ZERO_001'', as_of_date = 739221, instrument_type = BOND,
      balance_account = ''50105'', currency = USD, amount = 1000000,
      counterparty_type = CP_GOVERNMENT,
      start_date = 738156, maturity_date = Some 739982, rate = Some 0, rate_type = ZERO,
      repricing_date = None, repricing_frequency = None, is_amortizing = False,
      amortization_schedule = None,
      face_value = 1000000, coupon_rate = 0, coupon_frequency = CF_ZERO,
      next_coupon_date = None\<rparr>"

text \<open>An amortizing loan whose schedule is not sorted by date and starts before the
  \<^verbatim>\<open>as_of_date\<close>: the entries are dated 2025-06-01, 2024-06-01 and 2025-01-01.\<close>

definition amortizing_loan_data :: corporate_loan where
  "amortizing_loan_data =
     corporate_loan_data
       \<lparr>is_amortizing := True,
        amortization_schedule := Some
          [\<lparr>pay_date = 739403, pay_principal = 3000000, pay_interest = 200000\<rparr>,
           \<lparr>pay_date = 739038, pay_principal = 4000000, pay_interest = 700000\<rparr>,
           \<lparr>pay_date = 739252, pay_principal = 3000000, pay_interest = 450000\<rparr>]\<rparr>"



text \<open>
  Books for the analyzer, as of 2024-12-01. The first holds the three positions above: the
  loan matures in 761 days, the corporate deposit in 90 days, the retail deposit never. The
  second holds a loan of 5,000,000 and a deposit of 2,000,000 that both mature on
  2024-12-15 = 739235, in 14 days. The third is the second with the sign of the deposit's
  amount changed.
\<close>

definition example_book :: "any_position list" where
  "example_book =
     [ACorporateLoan corporate_loan_data, ACorporateDeposit corporate_deposit_data,
      ARetailDeposit retail_deposit_data]"



definition analyzer_of :: "any_position list \<Rightarrow> analyzer" where
  "analyzer_of book = LiquidityGapAnalyzer_init 739221 book (Some 739221) None RUB"

section \<open>Properties\<close>

subsection \<open>Bucket assignment\<close>

lemma get_bucket_negative:
  "d < 0 \<Longrightarrow> get_bucket define_buckets (Some d) = ''Overdue''"
  by (simp add: get_bucket_def define_buckets_def)

lemma get_bucket_ranges:
  "0 \<le> d \<Longrightarrow> get_bucket define_buckets (Some d) =
     (if d = 0 then ''Overnight''
      else if d \<le> 7 then ''1-7 days''
      else if d \<le> 30 then ''8-30 days''
      else if d \<le> 90 then ''1-3 months''
      else if d \<le> 180 then ''3-6 months''
      else if d \<le> 365 then ''6-12 months''
      else if d \<le> 730 then ''1-2 years''
      else if d \<le> 1095 then ''2-3 years''
      else if d \<le> 1825 then ''3-5 years''
      else ''5+ years'')"
  by (simp add: get_bucket_def define_buckets_def)

lemma matching_buckets_single:
  "0 \<le> d \<Longrightarrow>
   map fst (filter (\<lambda>b. bucket_matches b d) define_buckets) = [get_bucket define_buckets (Some d)]"
  by (simp add: get_bucket_def define_buckets_def)

text \<open>
  Claim C2. Bucket assignment is total and unambiguous. With the table of \<^verbatim>\<open>_define_buckets\<close>:
  a missing day count (\<^verbatim>\<open>None\<close>) goes to \<^verbatim>\<open>'5+ years'\<close>; every negative day count goes to
  \<^verbatim>\<open>'Overdue'\<close>; and for every non-negative day count exactly one of the ten standard buckets
  matches, that bucket is the one returned, and it is the bucket whose inclusive range
  (Overnight 0..0, 1-7 days 1..7, 8-30 days 8..30, 1-3 months 31..90, 3-6 months 91..180,
  6-12 months 181..365, 1-2 years 366..730, 2-3 years 731..1095, 3-5 years 1096..1825,
  5+ years from 1826) holds the day count.
\<close>

theorem get_bucket_total_unambiguous:
  "get_bucket define_buckets None = ''5+ years''
   \<and> (e < 0 \<longrightarrow> get_bucket define_buckets (Some e) = ''Overdue'')
   \<and> (0 \<le> d \<longrightarrow>
        map fst (filter (\<lambda>b. bucket_matches b d) define_buckets) = [get_bucket define_buckets (Some d)]
        \<and> get_bucket define_buckets (Some d) =
            (if d = 0 then ''Overnight''
             else if d \<le> 7 then ''1-7 days''
             else if d \<le> 30 then ''8-30 days''
             else if d \<le> 90 then ''1-3 months''
             else if d \<le> 180 then ''3-6 months''
             else if d \<le> 365 then ''6-12 months''
             else if d \<le> 730 then ''1-2 years''
             else if d \<le> 1095 then ''2-3 years''
             else if d \<le> 1825 then ''3-5 years''
             else ''5+ years''))"
proof (intro conjI impI)
  show "get_bucket define_buckets None = ''5+ years''"
    by (simp add: get_bucket_def)
next
  assume "e < 0"
  then show "get_bucket define_buckets (Some e) = ''Overdue''"
    by (rule get_bucket_negative)
next
  assume "0 \<le> d"
  then show "map fst (filter (\<lambda>b. bucket_matches b d) define_buckets)
      = [get_bucket define_buckets (Some d)]"
    by (rule matching_buckets_single)
next
  assume "0 \<le> d"
  then show "get_bucket define_buckets (Some d) =
            (if d = 0 then ''Overnight''
             else if d \<le> 7 then ''1-7 days''
             else if d \<le> 30 then ''8-30 days''
             else if d \<le> 90 then ''1-3 months''
             else if d \<le> 180 then ''3-6 months''
             else if d \<le> 365 then ''6-12 months''
             else if d \<le> 730 then ''1-2 years''
             else if d \<le> 1095 then ''2-3 years''
             else if d \<le> 1825 then ''3-5 years''
             else ''5+ years'')"
    by (rule get_bucket_ranges)
qed

theorem get_bucket_total_unambiguous_witness:
  "(-1::int) < 0 \<and> (0::int) \<le> 761
   \<and> get_bucket define_buckets (Some (-1)) = ''Overdue''
   \<and> map fst (filter (\<lambda>b. bucket_matches b 761) define_buckets) = [''2-3 years'']
   \<and> get_bucket define_buckets (Some 761) = ''2-3 years''"
  using get_bucket_total_unambiguous [of "-1" 761] by simp

subsection \<open>The arithmetic of \<^verbatim>\<open>Decimal\<close>\<close>

text \<open>
  What the rounding of the context does to a value: \<open>adjusted\<close> is the exponent of the leading
  digit, the rounded value is within half a unit of the 28th digit of the exact one, and a
  value that has at most 28 significant digits is returned unchanged.
\<close>

lemma pow10_powi: "pow10 k = 10 powi k"
  by (simp add: pow10_def power_int_def field_simps)

lemma pow10_pos [simp]: "0 < pow10 k"
  by (simp add: pow10_powi)

lemma pow10_nonzero [simp]: "pow10 k \<noteq> 0"
  by (metis pow10_pos less_irrefl)

lemma pow10_add: "pow10 (i + j) = pow10 i * pow10 j"
  by (simp add: pow10_powi power_int_add)

lemma pow10_diff: "pow10 (i - j) = pow10 i / pow10 j"
proof -
  have "pow10 (i - j) * pow10 j = pow10 i" by (simp flip: pow10_add)
  then show ?thesis by (simp add: field_simps)
qed

lemma pow10_nat: "0 \<le> k \<Longrightarrow> pow10 k = of_int (10 ^ nat k)"
  by (simp add: pow10_def)

lemma pow10_mono: "i \<le> j \<Longrightarrow> pow10 i \<le> pow10 j"
  by (simp add: pow10_powi power_int_increasing)

lemma pow10_strict_mono: "i < j \<Longrightarrow> pow10 i < pow10 j"
  by (simp add: pow10_powi power_int_strict_increasing)

lemma pow10_less_iff: "pow10 i < pow10 j \<longleftrightarrow> i < j"
  using pow10_strict_mono [of i j] pow10_mono [of j i] by (auto simp add: not_le [symmetric])

lemma pow10_le_iff: "pow10 i \<le> pow10 j \<longleftrightarrow> i \<le> j"
  using pow10_mono [of i j] pow10_strict_mono [of j i] by (auto simp add: not_less [symmetric])

lemma digits_pos: "1 \<le> digits n"
proof (induction n rule: digits.induct)
  case (1 n)
  then show ?case by (subst digits.simps) auto
qed

lemma digits_bounds:
  "1 \<le> n \<Longrightarrow> (10::int) ^ nat (digits n - 1) \<le> n \<and> n < 10 ^ nat (digits n)"
proof (induction n rule: digits.induct)
  case (1 n)
  show ?case
  proof (cases "n < 10")
    case True
    then have "digits n = 1" by (subst digits.simps) simp
    with True "1.prems" show ?thesis by simp
  next
    case False
    then have d: "digits n = 1 + digits (n div 10)" by (subst digits.simps) simp
    from False have "1 \<le> n div 10" by simp
    from "1.IH" [OF False this] have lo: "10 ^ nat (digits (n div 10) - 1) \<le> n div 10"
      and hi: "n div 10 < 10 ^ nat (digits (n div 10))" by auto
    have p: "1 \<le> digits (n div 10)" by (rule digits_pos)
    then have e: "nat (digits (n div 10)) = Suc (nat (digits (n div 10) - 1))" by simp
    have "10 ^ nat (digits (n div 10)) = 10 * 10 ^ nat (digits (n div 10) - 1)"
      by (subst e) simp
    also have "\<dots> \<le> 10 * (n div 10)" using lo by simp
    also have "\<dots> \<le> n" by simp
    finally have a: "10 ^ nat (digits n - 1) \<le> n" by (simp add: d)
    have "n < 10 * (n div 10 + 1)" by simp
    also have "\<dots> \<le> 10 * 10 ^ nat (digits (n div 10))" using hi by simp
    also have "\<dots> = 10 ^ nat (digits n)" using p by (simp add: d nat_add_distrib)
    finally show ?thesis using a by simp
  qed
qed

lemma adjusted_bounds:
  assumes "x \<noteq> 0"
  shows "pow10 (adjusted x) \<le> \<bar>x\<bar>" and "\<bar>x\<bar> < pow10 (adjusted x + 1)"
proof -
  obtain a b where q: "quotient_of \<bar>x\<bar> = (a, b)" by (cases "quotient_of \<bar>x\<bar>")
  then have b: "0 < b" by (rule quotient_of_denom_pos)
  from q have x: "\<bar>x\<bar> = of_int a / of_int b" by (rule quotient_of_div)
  from assms have "0 < \<bar>x\<bar>" by simp
  with x b have a: "1 \<le> a" by (simp add: zero_less_divide_iff)
  from b have b1: "1 \<le> b" by simp
  define k where "k = digits a - digits b"
  have adj: "adjusted x = (if pow10 k \<le> \<bar>x\<bar> then k else k - 1)"
    by (simp add: adjusted_def q k_def)
  have da: "1 \<le> digits a" and db: "1 \<le> digits b" by (rule digits_pos)+
  from digits_bounds [OF a] have alo: "pow10 (digits a - 1) \<le> of_int a"
    and ahi: "(of_int a :: rat) < pow10 (digits a)"
    using da by (simp_all add: pow10_nat del: of_int_power flip: of_int_power_le_of_int_cancel_iff)
  from digits_bounds [OF b1] have blo: "pow10 (digits b - 1) \<le> of_int b"
    and bhi: "(of_int b :: rat) < pow10 (digits b)"
    using db by (simp_all add: pow10_nat del: of_int_power flip: of_int_power_le_of_int_cancel_iff)
  have bp: "(0::rat) < of_int b" using b by simp
  have lo: "pow10 (k - 1) < \<bar>x\<bar>"
  proof -
    have "pow10 (k - 1) * of_int b < pow10 (k - 1) * pow10 (digits b)"
      using bhi by simp
    also have "\<dots> = pow10 (digits a - 1)"
      by (simp add: k_def flip: pow10_add)
    also have "\<dots> \<le> of_int a" by (rule alo)
    finally show ?thesis using bp by (simp add: x pos_less_divide_eq)
  qed
  have hi: "\<bar>x\<bar> < pow10 (k + 1)"
  proof -
    have "of_int a < pow10 (digits a)" by (rule ahi)
    also have "\<dots> = pow10 (k + 1) * pow10 (digits b - 1)"
      by (simp add: k_def flip: pow10_add)
    also have "\<dots> \<le> pow10 (k + 1) * of_int b"
      using blo by simp
    finally show ?thesis using bp by (simp add: x pos_divide_less_eq)
  qed
  show "pow10 (adjusted x) \<le> \<bar>x\<bar>"
    using lo by (simp add: adj)
  show "\<bar>x\<bar> < pow10 (adjusted x + 1)"
    using hi by (simp add: adj not_le)
qed

lemma round_half_even_error: "\<bar>of_int (round_half_even y) - y\<bar> \<le> 1 / 2"
proof -
  define d where "d = y - of_int \<lfloor>y\<rfloor>"
  have d: "0 \<le> d" "d < 1" unfolding d_def by linarith+
  have r: "round_half_even y =
             (if d < 1 / 2 then \<lfloor>y\<rfloor>
              else if 1 / 2 < d then \<lfloor>y\<rfloor> + 1
              else if even \<lfloor>y\<rfloor> then \<lfloor>y\<rfloor> else \<lfloor>y\<rfloor> + 1)"
    by (simp add: round_half_even_def Let_def d_def)
  have "of_int (round_half_even y) - y =
          (if d < 1 / 2 then - d
           else if 1 / 2 < d then 1 - d
           else if even \<lfloor>y\<rfloor> then - d else 1 - d)"
    unfolding r by (auto simp add: d_def)
  then show ?thesis using d by (auto simp add: abs_if)
qed

lemma round_half_even_of_int [simp]: "round_half_even (of_int n) = n"
  by (simp add: round_half_even_def)

text \<open>The rounded value differs from the exact one by at most half a unit of the 28th digit.\<close>

lemma dec_round_error:
  "\<bar>dec_round x - x\<bar> \<le> \<bar>x\<bar> / (2 * 10 ^ 27)"
proof (cases "x = 0")
  case True
  then show ?thesis by (simp add: dec_round_def)
next
  case False
  define q where "q = pow10 (adjusted x - 27)"
  have qp: "0 < q" by (simp add: q_def)
  then have qn: "q \<noteq> 0" by simp
  have "dec_round x = of_int (round_half_even (x / q)) * q"
    using False by (simp add: dec_round_def q_def Let_def)
  then have "dec_round x - x = (of_int (round_half_even (x / q)) - x / q) * q"
    using qn by (simp add: algebra_simps)
  then have "\<bar>dec_round x - x\<bar> = \<bar>of_int (round_half_even (x / q)) - x / q\<bar> * q"
    using qp by (simp add: abs_mult)
  also have "\<dots> \<le> (1 / 2) * q"
    using round_half_even_error [of "x / q"] qp by (intro mult_right_mono) simp_all
  also have "q = pow10 (adjusted x) / 10 ^ 27"
    by (simp add: q_def pow10_powi power_int_diff)
  also have "(1 / 2) * (pow10 (adjusted x) / 10 ^ 27) \<le> (1 / 2) * (\<bar>x\<bar> / 10 ^ 27)"
    using adjusted_bounds(1) [OF False] by (simp add: divide_right_mono)
  finally show ?thesis by simp
qed

text \<open>A value of at most 28 significant digits is not changed by the rounding.\<close>

lemma dec_round_exact:
  assumes "x = of_int n * pow10 k" and "\<bar>n\<bar> < 10 ^ 28"
  shows "dec_round x = x"
proof (cases "x = 0")
  case True
  then show ?thesis by (simp add: dec_round_def)
next
  case False
  define e where "e = adjusted x"
  have "pow10 e \<le> \<bar>x\<bar>" unfolding e_def by (rule adjusted_bounds(1) [OF False])
  also have "\<bar>x\<bar> = of_int \<bar>n\<bar> * pow10 k"
    by (simp add: assms(1) abs_mult abs_of_pos)
  also have "\<dots> < of_int (10 ^ 28) * pow10 k"
    using assms(2) by (intro mult_strict_right_mono) (simp_all del: of_int_power)
  also have "\<dots> = pow10 (k + 28)"
  proof -
    have "(of_int (10 ^ 28) :: rat) = pow10 28" by (simp add: pow10_def)
    then show ?thesis by (simp only: pow10_add mult.commute)
  qed
  finally have "e < k + 28" by (simp add: pow10_less_iff)
  then have j: "0 \<le> k - e + 27" by simp
  have "x / pow10 (e - 27) = of_int n * (pow10 k / pow10 (e - 27))"
    by (simp add: assms(1))
  also have "pow10 k / pow10 (e - 27) = pow10 (k - e + 27)"
    using pow10_diff [of k "e - 27"] by (simp add: algebra_simps)
  also have "\<dots> = of_int (10 ^ nat (k - e + 27))" using j by (rule pow10_nat)
  finally have "x / pow10 (e - 27) = of_int (n * 10 ^ nat (k - e + 27))" by simp
  then have "of_int (round_half_even (x / pow10 (e - 27))) = x / pow10 (e - 27)"
    by (simp only: round_half_even_of_int)
  then show ?thesis using False by (simp add: dec_round_def e_def Let_def)
qed

lemma dec_neg_exact:
  assumes "x = of_int n * pow10 k" and "\<bar>n\<bar> < 10 ^ 28"
  shows "dec_neg x = - x"
  using dec_round_exact [of "- x" "- n" k] assms by (simp add: dec_neg_def)

subsection \<open>Cash flows\<close>

lemma dec_round_zero [simp]: "dec_round 0 = 0"
  by (simp add: dec_round_def)

lemma dec_mul_zero_right [simp]: "dec_mul a 0 = 0"
  by (simp add: dec_mul_def)

lemma dec_mul_zero_left [simp]: "dec_mul 0 b = 0"
  by (simp add: dec_mul_def)

lemma dec_neg_zero [simp]: "dec_neg 0 = 0"
  by (simp add: dec_neg_def)

lemma bullet_interest_eq:
  "maturity_date self = Some m \<Longrightarrow>
   bullet_interest self =
     (case rate self of None \<Rightarrow> 0
      | Some r \<Rightarrow> dec_mul (dec_mul (amount self) r) (dec_div (of_int (m - as_of_date self)) 365))"
  by (simp add: bullet_interest_def get_time_to_maturity_years_def get_effective_maturity_def
      split: option.splits)

text \<open>The figures of the loan and of the deposit of the unit tests, operation by operation.\<close>

lemma loan_fixture_interest:
  "dec_mul (dec_mul 10000000 (15 / 100)) (dec_div (of_int (739982 - 739221)) 365)
   = 3127397260273972602739726028 / 1000000000000000000000"
  by code_simp

lemma loan_fixture_total:
  "dec_add 10000000 (3127397260273972602739726028 / 1000000000000000000000)
   = 1312739726027397260273972603 / 100000000000000000000"
  by code_simp

lemma deposit_fixture_interest:
  "dec_mul (dec_mul 10000000 (10 / 100)) (dec_div (of_int (739311 - 739221)) 365)
   = 2465753424657534246575342466 / 10000000000000000000000"
  by code_simp

lemma deposit_fixture_total:
  "dec_add 10000000 (2465753424657534246575342466 / 10000000000000000000000)
   = 1024657534246575342465753425 / 100000000000000000000"
  by code_simp

lemma deposit_fixture_negations:
  "dec_neg 10000000 = - 10000000"
  "dec_neg (2465753424657534246575342466 / 10000000000000000000000)
   = - (2465753424657534246575342466 / 10000000000000000000000)"
  "dec_neg (1024657534246575342465753425 / 100000000000000000000)
   = - (1024657534246575342465753425 / 100000000000000000000)"
  by code_simp+

lemma schedule_fixture_totals:
  "dec_add 3000000 200000 = 3200000"
  "dec_add 3000000 450000 = 3450000"
  by code_simp+

text \<open>
  Claim C1. For every loan (\<^verbatim>\<open>CorporateLoan\<close> or \<^verbatim>\<open>RetailLoan\<close>, both instances of
  \<open>'a loan_base_scheme\<close>) that is not amortizing with a schedule: without \<^verbatim>\<open>maturity_date\<close>
  the cash flows are empty; otherwise there is exactly one record, dated \<^verbatim>\<open>maturity_date\<close>, with
  \<^verbatim>\<open>principal = amount\<close>, \<^verbatim>\<open>interest = amount * rate * ((maturity_date - as_of_date).days / 365)\<close>
  when the rate is set and \<open>0\<close> when it is \<^verbatim>\<open>None\<close>, and \<^verbatim>\<open>total = principal + interest\<close>. The
  operators are those of \<^verbatim>\<open>Decimal\<close>: each of the two products, the quotient and the sum is
  rounded to 28 significant digits.
\<close>

theorem LoanBase_bullet_cash_flows:
  fixes self :: "'a loan_base_scheme"
  assumes "\<not> (is_amortizing self \<and> amortization_schedule self \<noteq> None
              \<and> amortization_schedule self \<noteq> Some [])"
  shows "LoanBase_get_cash_flows self =
    (case maturity_date self of
       None \<Rightarrow> []
     | Some m \<Rightarrow>
         [\<lparr>cf_date = m, cf_principal = amount self,
           cf_interest =
             (case rate self of None \<Rightarrow> 0
              | Some r \<Rightarrow> dec_mul (dec_mul (amount self) r)
                                  (dec_div (of_int (m - as_of_date self)) 365)),
           cf_total = dec_add (amount self)
             (case rate self of None \<Rightarrow> 0
              | Some r \<Rightarrow> dec_mul (dec_mul (amount self) r)
                                  (dec_div (of_int (m - as_of_date self)) 365))\<rparr>])"
proof (cases "maturity_date self")
  case None
  then show ?thesis by (simp add: LoanBase_get_cash_flows_def)
next
  case (Some m)
  with assms show ?thesis
    by (auto simp add: LoanBase_get_cash_flows_def bullet_interest_eq [OF Some] Let_def)
qed

text \<open>On the loan of the unit tests the interest is \<open>3127397.260273972602739726028\<close> and the
  total \<open>13127397.26027397260273972603\<close>.\<close>

theorem LoanBase_bullet_cash_flows_witness:
  "\<not> (is_amortizing corporate_loan_data \<and> amortization_schedule corporate_loan_data \<noteq> None
              \<and> amortization_schedule corporate_loan_data \<noteq> Some [])
   \<and> LoanBase_get_cash_flows corporate_loan_data =
       [\<lparr>cf_date = 739982, cf_principal = 10000000,
         cf_interest = 3127397260273972602739726028 / 1000000000000000000000,
         cf_total = 1312739726027397260273972603 / 100000000000000000000\<rparr>]"
proof -
  have h: "\<not> (is_amortizing corporate_loan_data \<and> amortization_schedule corporate_loan_data \<noteq> None
              \<and> amortization_schedule corporate_loan_data \<noteq> Some [])"
    by (simp add: corporate_loan_data_def)
  have "LoanBase_get_cash_flows corporate_loan_data =
       [\<lparr>cf_date = 739982, cf_principal = 10000000,
         cf_interest = dec_mul (dec_mul 10000000 (15 / 100)) (dec_div (of_int (739982 - 739221)) 365),
         cf_total = dec_add 10000000
           (dec_mul (dec_mul 10000000 (15 / 100)) (dec_div (of_int (739982 - 739221)) 365))\<rparr>]"
    using LoanBase_bullet_cash_flows [OF h] by (simp add: corporate_loan_data_def)
  then have "LoanBase_get_cash_flows corporate_loan_data =
       [\<lparr>cf_date = 739982, cf_principal = 10000000,
         cf_interest = 3127397260273972602739726028 / 1000000000000000000000,
         cf_total = 1312739726027397260273972603 / 100000000000000000000\<rparr>]"
    unfolding loan_fixture_interest loan_fixture_total .
  with h show ?thesis by (rule conjI)
qed

text \<open>
  Claim C4. For every term deposit (\<^verbatim>\<open>CorporateDeposit\<close> or \<^verbatim>\<open>RetailDeposit\<close>, both instances of
  \<open>'a deposit_base_scheme\<close>, with \<^verbatim>\<open>maturity_date\<close> present) there is exactly one record, dated
  \<^verbatim>\<open>maturity_date\<close>, with the negated values \<^verbatim>\<open>principal = -amount\<close>,
  \<^verbatim>\<open>interest = -(amount * rate * years_to_maturity)\<close> (the negation of \<open>0\<close> when the rate is
  \<^verbatim>\<open>None\<close>) and \<^verbatim>\<open>total = -(amount + interest)\<close> with the unsigned interest. The operators are
  those of \<^verbatim>\<open>Decimal\<close>: the products, the quotient, the sum and each negation are rounded to 28
  significant digits.
\<close>

theorem DepositBase_term_cash_flows:
  fixes self :: "'a deposit_base_scheme"
  assumes "maturity_date self = Some m"
  shows "DepositBase_get_cash_flows self =
         [\<lparr>cf_date = m, cf_principal = dec_neg (amount self),
           cf_interest = dec_neg
             (case rate self of None \<Rightarrow> 0
              | Some r \<Rightarrow> dec_mul (dec_mul (amount self) r)
                                  (dec_div (of_int (m - as_of_date self)) 365)),
           cf_total = dec_neg (dec_add (amount self)
             (case rate self of None \<Rightarrow> 0
              | Some r \<Rightarrow> dec_mul (dec_mul (amount self) r)
                                  (dec_div (of_int (m - as_of_date self)) 365)))\<rparr>]"
  using assms
  by (simp add: DepositBase_get_cash_flows_def bullet_interest_eq [OF assms] Let_def)

text \<open>On the deposit of the unit tests the interest is \<open>-246575.3424657534246575342466\<close> and
  the total \<open>-10246575.34246575342465753425\<close>.\<close>

theorem DepositBase_term_cash_flows_witness:
  "maturity_date corporate_deposit_data = Some 739311
   \<and> DepositBase_get_cash_flows corporate_deposit_data =
       [\<lparr>cf_date = 739311, cf_principal = - 10000000,
         cf_interest = - (2465753424657534246575342466 / 10000000000000000000000),
         cf_total = - (1024657534246575342465753425 / 100000000000000000000)\<rparr>]"
proof -
  have h: "maturity_date corporate_deposit_data = Some 739311"
    by (simp add: corporate_deposit_data_def)
  have "DepositBase_get_cash_flows corporate_deposit_data =
       [\<lparr>cf_date = 739311, cf_principal = dec_neg 10000000,
         cf_interest = dec_neg
           (dec_mul (dec_mul 10000000 (10 / 100)) (dec_div (of_int (739311 - 739221)) 365)),
         cf_total = dec_neg (dec_add 10000000
           (dec_mul (dec_mul 10000000 (10 / 100)) (dec_div (of_int (739311 - 739221)) 365)))\<rparr>]"
    using DepositBase_term_cash_flows [OF h] by (simp add: corporate_deposit_data_def)
  then have "DepositBase_get_cash_flows corporate_deposit_data =
       [\<lparr>cf_date = 739311, cf_principal = - 10000000,
         cf_interest = - (2465753424657534246575342466 / 10000000000000000000000),
         cf_total = - (1024657534246575342465753425 / 100000000000000000000)\<rparr>]"
    unfolding deposit_fixture_interest deposit_fixture_total deposit_fixture_negations .
  with h show ?thesis by (rule conjI)
qed

text \<open>For an amount of at most 28 significant digits, as the amounts of a balance sheet are,
  the negation is exact and the principal of the deposit is \<^verbatim>\<open>-amount\<close> itself.\<close>

lemma DepositBase_principal_exact:
  fixes self :: "'a deposit_base_scheme"
  assumes "maturity_date self = Some m"
    and "amount self = of_int n * pow10 k" and "\<bar>n\<bar> < 10 ^ 28"
  shows "map cf_principal (DepositBase_get_cash_flows self) = [- amount self]"
  using assms(1) dec_neg_exact [OF assms(2,3)]
  by (simp add: DepositBase_get_cash_flows_def Let_def)

lemma schedule_cash_flows_map_filter:
  "schedule_cash_flows d ps =
     map (\<lambda>p. \<lparr>cf_date = pay_date p, cf_principal = pay_principal p, cf_interest = pay_interest p,
                cf_total = dec_add (pay_principal p) (pay_interest p)\<rparr>)
         (filter (\<lambda>p. pay_date p \<ge> d) ps)"
  by (induction ps) simp_all

text \<open>
  Claim C9, as amended. For every amortizing loan that has a \<^verbatim>\<open>maturity_date\<close> and carries a
  non-empty \<^verbatim>\<open>amortization_schedule\<close>, the cash flows are exactly one record per schedule entry
  whose date is \<^verbatim>\<open>>= as_of_date\<close>, each with the entry's principal and interest and
  \<^verbatim>\<open>total = principal + interest\<close> (the sum of \<^verbatim>\<open>Decimal\<close>, rounded to 28 significant digits), in
  the order of the schedule.
\<close>

theorem LoanBase_schedule_cash_flows:
  fixes self :: "'a loan_base_scheme"
  assumes "maturity_date self = Some m" and "is_amortizing self"
    and "amortization_schedule self = Some schedule" and "schedule \<noteq> []"
  shows "LoanBase_get_cash_flows self =
     map (\<lambda>p. \<lparr>cf_date = pay_date p, cf_principal = pay_principal p, cf_interest = pay_interest p,
                cf_total = dec_add (pay_principal p) (pay_interest p)\<rparr>)
         (filter (\<lambda>p. pay_date p \<ge> as_of_date self) schedule)"
  using assms by (simp add: LoanBase_get_cash_flows_def schedule_cash_flows_map_filter)

theorem LoanBase_schedule_cash_flows_witness:
  "maturity_date amortizing_loan_data = Some 739982 \<and> is_amortizing amortizing_loan_data
   \<and> amortization_schedule amortizing_loan_data = Some
          [\<lparr>pay_date = 739403, pay_principal = 3000000, pay_interest = 200000\<rparr>,
           \<lparr>pay_date = 739038, pay_principal = 4000000, pay_interest = 700000\<rparr>,
           \<lparr>pay_date = 739252, pay_principal = 3000000, pay_interest = 450000\<rparr>]
   \<and> [\<lparr>pay_date = 739403, pay_principal = 3000000, pay_interest = 200000\<rparr>,
           \<lparr>pay_date = 739038, pay_principal = 4000000, pay_interest = 700000\<rparr>,
           \<lparr>pay_date = 739252, pay_principal = 3000000, pay_interest = 450000\<rparr>] \<noteq> []
   \<and> LoanBase_get_cash_flows amortizing_loan_data =
       [\<lparr>cf_date = 739403, cf_principal = 3000000, cf_interest = 200000, cf_total = 3200000\<rparr>,
        \<lparr>cf_date = 739252, cf_principal = 3000000, cf_interest = 450000, cf_total = 3450000\<rparr>]"
proof -
  have h: "maturity_date amortizing_loan_data = Some 739982" "is_amortizing amortizing_loan_data"
    "amortization_schedule amortizing_loan_data = Some
          [\<lparr>pay_date = 739403, pay_principal = 3000000, pay_interest = 200000\<rparr>,
           \<lparr>pay_date = 739038, pay_principal = 4000000, pay_interest = 700000\<rparr>,
           \<lparr>pay_date = 739252, pay_principal = 3000000, pay_interest = 450000\<rparr>]"
    "[\<lparr>pay_date = 739403, pay_principal = 3000000, pay_interest = 200000\<rparr>,
           \<lparr>pay_date = 739038, pay_principal = 4000000, pay_interest = 700000\<rparr>,
           \<lparr>pay_date = 739252, pay_principal = 3000000, pay_interest = 450000\<rparr>] \<noteq> []"
    by (simp_all add: amortizing_loan_data_def corporate_loan_data_def)
  have "LoanBase_get_cash_flows amortizing_loan_data =
       [\<lparr>cf_date = 739403, cf_principal = 3000000, cf_interest = 200000,
         cf_total = dec_add 3000000 200000\<rparr>,
        \<lparr>cf_date = 739252, cf_principal = 3000000, cf_interest = 450000,
         cf_total = dec_add 3000000 450000\<rparr>]"
    using LoanBase_schedule_cash_flows [OF h]
    by (simp add: amortizing_loan_data_def corporate_loan_data_def)
  then have "LoanBase_get_cash_flows amortizing_loan_data =
       [\<lparr>cf_date = 739403, cf_principal = 3000000, cf_interest = 200000, cf_total = 3200000\<rparr>,
        \<lparr>cf_date = 739252, cf_principal = 3000000, cf_interest = 450000, cf_total = 3450000\<rparr>]"
    unfolding schedule_fixture_totals .
  with h show ?thesis by blast
qed

text \<open>
  Claim C9 as stated fails: an amortizing loan with a schedule and no \<^verbatim>\<open>maturity_date\<close> has no
  cash flows although two of its entries are dated after the \<^verbatim>\<open>as_of_date\<close>, and an amortizing
  loan whose schedule is the empty list has one record, the bullet record of the loan, where
  the claim has none.
\<close>

theorem LoanBase_schedule_without_maturity_counterexample:
  "is_amortizing (amortizing_loan_data\<lparr>maturity_date := None\<rparr>)
   \<and> amortization_schedule (amortizing_loan_data\<lparr>maturity_date := None\<rparr>) = Some
          [\<lparr>pay_date = 739403, pay_principal = 3000000, pay_interest = 200000\<rparr>,
           \<lparr>pay_date = 739038, pay_principal = 4000000, pay_interest = 700000\<rparr>,
           \<lparr>pay_date = 739252, pay_principal = 3000000, pay_interest = 450000\<rparr>]
   \<and> as_of_date (amortizing_loan_data\<lparr>maturity_date := None\<rparr>) = 739221
   \<and> LoanBase_get_cash_flows (amortizing_loan_data\<lparr>maturity_date := None\<rparr>) = []
   \<and> is_amortizing (amortizing_loan_data\<lparr>amortization_schedule := Some []\<rparr>)
   \<and> amortization_schedule (amortizing_loan_data\<lparr>amortization_schedule := Some []\<rparr>) = Some []
   \<and> LoanBase_get_cash_flows (amortizing_loan_data\<lparr>amortization_schedule := Some []\<rparr>) =
       [\<lparr>cf_date = 739982, cf_principal = 10000000,
         cf_interest = 3127397260273972602739726028 / 1000000000000000000000,
         cf_total = 1312739726027397260273972603 / 100000000000000000000\<rparr>]"
proof -
  have a: "is_amortizing (amortizing_loan_data\<lparr>maturity_date := None\<rparr>)
   \<and> amortization_schedule (amortizing_loan_data\<lparr>maturity_date := None\<rparr>) = Some
          [\<lparr>pay_date = 739403, pay_principal = 3000000, pay_interest = 200000\<rparr>,
           \<lparr>pay_date = 739038, pay_principal = 4000000, pay_interest = 700000\<rparr>,
           \<lparr>pay_date = 739252, pay_principal = 3000000, pay_interest = 450000\<rparr>]
   \<and> as_of_date (amortizing_loan_data\<lparr>maturity_date := None\<rparr>) = 739221
   \<and> LoanBase_get_cash_flows (amortizing_loan_data\<lparr>maturity_date := None\<rparr>) = []
   \<and> is_amortizing (amortizing_loan_data\<lparr>amortization_schedule := Some []\<rparr>)
   \<and> amortization_schedule (amortizing_loan_data\<lparr>amortization_schedule := Some []\<rparr>) = Some []"
    by (simp add: amortizing_loan_data_def corporate_loan_data_def LoanBase_get_cash_flows_def)
  have "LoanBase_get_cash_flows (amortizing_loan_data\<lparr>amortization_schedule := Some []\<rparr>) =
       [\<lparr>cf_date = 739982, cf_principal = 10000000,
         cf_interest = dec_mul (dec_mul 10000000 (15 / 100)) (dec_div (of_int (739982 - 739221)) 365),
         cf_total = dec_add 10000000
           (dec_mul (dec_mul 10000000 (15 / 100)) (dec_div (of_int (739982 - 739221)) 365))\<rparr>]"
    by (simp add: amortizing_loan_data_def corporate_loan_data_def LoanBase_get_cash_flows_def
        bullet_interest_def get_time_to_maturity_years_def get_effective_maturity_def Let_def)
  then have b: "LoanBase_get_cash_flows (amortizing_loan_data\<lparr>amortization_schedule := Some []\<rparr>) =
       [\<lparr>cf_date = 739982, cf_principal = 10000000,
         cf_interest = 3127397260273972602739726028 / 1000000000000000000000,
         cf_total = 1312739726027397260273972603 / 100000000000000000000\<rparr>]"
    unfolding loan_fixture_interest loan_fixture_total .
  from a b show ?thesis by blast
qed

text \<open>
  Claim C5. For every zero-coupon bond with a \<^verbatim>\<open>maturity_date\<close> the cash flows are exactly one
  record, tagged \<^verbatim>\<open>type = "maturity"\<close>, dated \<^verbatim>\<open>maturity_date\<close>, with \<^verbatim>\<open>principal = amount\<close> and
  \<^verbatim>\<open>interest = 0\<close>.
\<close>

theorem Bond_zero_coupon_cash_flows:
  fixes self :: "'a bond_scheme"
  assumes "coupon_frequency self = CF_ZERO" and "maturity_date self = Some m"
  shows "Bond_get_cash_flows coupon_dates self =
         Some [\<lparr>bcf_date = m, bcf_principal = amount self, bcf_interest = 0, bcf_type = ''maturity''\<rparr>]"
  using assms by (simp add: Bond_get_cash_flows_def)

theorem Bond_zero_coupon_cash_flows_witness:
  "coupon_frequency zero_coupon_bond_data = CF_ZERO
   \<and> maturity_date zero_coupon_bond_data = Some 739982
   \<and> Bond_get_cash_flows [] zero_coupon_bond_data =
         Some [\<lparr>bcf_date = 739982, bcf_principal = 1000000, bcf_interest = 0, bcf_type = ''maturity''\<rparr>]"
  using Bond_zero_coupon_cash_flows [of zero_coupon_bond_data 739982 "[]"]
  by (simp add: zero_coupon_bond_data_def)

subsection \<open>The factory\<close>

lemma InstrumentType_of_value_Some:
  "InstrumentType_of_value s = Some m \<Longrightarrow> InstrumentType_value m = s"
  by (auto simp add: InstrumentType_of_value_def find_Some_iff)

lemma InstrumentType_of_value_value:
  "InstrumentType_of_value (InstrumentType_value m) = Some m"
  by (cases m) (simp_all add: InstrumentType_of_value_def InstrumentType_members_def)

lemma InstrumentType_value_nonempty: "InstrumentType_value m \<noteq> []"
  by (cases m) simp_all

lemma map_of_class_mapping:
  "map_of class_mapping m =
     (case m of LOAN_CORPORATE \<Rightarrow> Some CorporateLoan | LOAN_RETAIL \<Rightarrow> Some RetailLoan
      | DEPOSIT_CORPORATE \<Rightarrow> Some CorporateDeposit | DEPOSIT_RETAIL \<Rightarrow> Some RetailDeposit
      | _ \<Rightarrow> None)"
  by (cases m) (simp_all add: class_mapping_def)

lemma create_no_class_mapping:
  assumes "m \<in> {BOND, EQUITY, CASH, OTHER}"
    and "data ''instrument_type'' \<in> {Some (PStr (InstrumentType_value m)), Some (PEnum m)}"
  shows "create_position_from_dict call_class data = Inl (NoClassMapping m)"
proof -
  from assms(1) have nm: "map_of class_mapping m = None"
    by (auto simp add: map_of_class_mapping)
  from assms(2) consider "data ''instrument_type'' = Some (PStr (InstrumentType_value m))"
    | "data ''instrument_type'' = Some (PEnum m)"
    by auto
  then show ?thesis
  proof cases
    case 1
    then show ?thesis
      by (simp add: create_position_from_dict_def falsy_def InstrumentType_of_value_value nm
          InstrumentType_value_nonempty)
  next
    case 2
    then show ?thesis
      by (simp add: create_position_from_dict_def falsy_def nm InstrumentType_value_nonempty)
  qed
qed

lemma create_unknown:
  assumes "InstrumentType_of_value s = None" and "s \<noteq> []"
    and "data ''instrument_type'' = Some (PStr s)"
  shows "create_position_from_dict call_class data = Inl (UnknownInstrumentType s)"
  using assms by (simp add: create_position_from_dict_def falsy_def)

lemma create_required:
  assumes "data ''instrument_type'' \<in> {None, Some PNone, Some (PStr [])}"
  shows "create_position_from_dict call_class data = Inl InstrumentTypeRequired"
  using assms by (auto simp add: create_position_from_dict_def falsy_def)

lemma create_success:
  assumes "create_position_from_dict call_class data = Inr p"
  shows "\<exists>m c. (m, c) \<in> set class_mapping
           \<and> m \<in> {LOAN_CORPORATE, LOAN_RETAIL, DEPOSIT_CORPORATE, DEPOSIT_RETAIL}
           \<and> data ''instrument_type'' \<in> {Some (PStr (InstrumentType_value m)), Some (PEnum m)}
           \<and> call_class c data = Inr p"
proof -
  from assms obtain v where v: "data ''instrument_type'' = Some v" and nf: "\<not> falsy v"
    by (auto simp add: create_position_from_dict_def Let_def split: option.splits if_splits)
  from assms v nf obtain m where m: "v = PStr (InstrumentType_value m) \<or> v = PEnum m"
    and rest: "(case map_of class_mapping m of
                   None \<Rightarrow> Inl (NoClassMapping m)
                 | Some position_class \<Rightarrow>
                     (case call_class position_class data of
                        Inl e \<Rightarrow> Inl (ValidationError e)
                      | Inr p \<Rightarrow> Inr p)) = Inr p"
    by (cases v)
       (auto simp add: create_position_from_dict_def Let_def falsy_def
          dest: InstrumentType_of_value_Some split: option.splits if_splits)
  from rest obtain c where c: "map_of class_mapping m = Some c" and r: "call_class c data = Inr p"
    by (auto split: option.splits sum.splits)
  from c have "(m, c) \<in> set class_mapping" by (rule map_of_SomeD)
  moreover from c have "m \<in> {LOAN_CORPORATE, LOAN_RETAIL, DEPOSIT_CORPORATE, DEPOSIT_RETAIL}"
    by (cases m) (simp_all add: map_of_class_mapping)
  ultimately show ?thesis using m v r by auto
qed

text \<open>
  Claim C10, as amended. The factory constructs only the four loan and deposit classes: a
  returned position is the result of calling the class that \<^verbatim>\<open>class_mapping\<close> gives for one of
  \<^verbatim>\<open>loan_corporate\<close>, \<^verbatim>\<open>loan_retail\<close>, \<^verbatim>\<open>deposit_corporate\<close>, \<^verbatim>\<open>deposit_retail\<close>. For an
  \<^verbatim>\<open>instrument_type\<close> that is one of \<^verbatim>\<open>bond\<close>, \<^verbatim>\<open>equity\<close>, \<^verbatim>\<open>cash\<close>, \<^verbatim>\<open>other\<close> (as a string or as
  the member) it raises \<^verbatim>\<open>No class mapping for instrument_type\<close>; for a non-empty string
  outside the enumeration it raises \<^verbatim>\<open>Unknown instrument_type\<close>; for a missing key, \<^verbatim>\<open>None\<close> or
  the empty string it raises \<^verbatim>\<open>instrument_type is required\<close>.
\<close>

theorem create_position_from_dict_dispatch:
  fixes call_class :: "position_class \<Rightarrow> (string \<rightharpoonup> pyval) \<Rightarrow> 'e + 'p"
  shows
  "(m \<in> {BOND, EQUITY, CASH, OTHER}
      \<and> data1 ''instrument_type'' \<in> {Some (PStr (InstrumentType_value m)), Some (PEnum m)}
      \<longrightarrow> create_position_from_dict call_class data1 = Inl (NoClassMapping m))
   \<and> (InstrumentType_of_value s = None \<and> s \<noteq> [] \<and> data2 ''instrument_type'' = Some (PStr s)
      \<longrightarrow> create_position_from_dict call_class data2 = Inl (UnknownInstrumentType s))
   \<and> (data3 ''instrument_type'' \<in> {None, Some PNone, Some (PStr [])}
      \<longrightarrow> create_position_from_dict call_class data3 = Inl InstrumentTypeRequired)
   \<and> (create_position_from_dict call_class data4 = Inr p
      \<longrightarrow> (\<exists>m' c. (m', c) \<in> set class_mapping
             \<and> m' \<in> {LOAN_CORPORATE, LOAN_RETAIL, DEPOSIT_CORPORATE, DEPOSIT_RETAIL}
             \<and> data4 ''instrument_type'' \<in> {Some (PStr (InstrumentType_value m')), Some (PEnum m')}
             \<and> call_class c data4 = Inr p))"
  using create_no_class_mapping [of m data1 call_class] create_unknown [of s data2 call_class]
    create_required [of data3 call_class] create_success [of call_class data4 p]
  by blast

theorem create_position_from_dict_dispatch_witness:
  "BOND \<in> {BOND, EQUITY, CASH, OTHER}
   \<and> [''instrument_type'' \<mapsto> PStr ''bond''] ''instrument_type''
        \<in> {Some (PStr (InstrumentType_value BOND)), Some (PEnum BOND)}
   \<and> create_position_from_dict (\<lambda>c d. Inr c :: unit + position_class)
        [''instrument_type'' \<mapsto> PStr ''bond''] = Inl (NoClassMapping BOND)
   \<and> InstrumentType_of_value ''invalid_type'' = None \<and> ''invalid_type'' \<noteq> []
   \<and> [''instrument_type'' \<mapsto> PStr ''invalid_type''] ''instrument_type'' = Some (PStr ''invalid_type'')
   \<and> create_position_from_dict (\<lambda>c d. Inr c :: unit + position_class)
        [''instrument_type'' \<mapsto> PStr ''invalid_type''] = Inl (UnknownInstrumentType ''invalid_type'')
   \<and> (Map.empty :: string \<rightharpoonup> pyval) ''instrument_type'' \<in> {None, Some PNone, Some (PStr [])}
   \<and> create_position_from_dict (\<lambda>c d. Inr c :: unit + position_class) Map.empty
        = Inl InstrumentTypeRequired
   \<and> create_position_from_dict (\<lambda>c d. Inr c :: unit + position_class)
        [''instrument_type'' \<mapsto> PStr ''loan_corporate''] = Inr CorporateLoan
   \<and> (\<exists>m' c. (m', c) \<in> set class_mapping
             \<and> m' \<in> {LOAN_CORPORATE, LOAN_RETAIL, DEPOSIT_CORPORATE, DEPOSIT_RETAIL}
             \<and> [''instrument_type'' \<mapsto> PStr ''loan_corporate''] ''instrument_type''
                  \<in> {Some (PStr (InstrumentType_value m')), Some (PEnum m')}
             \<and> (Inr c :: unit + position_class) = Inr CorporateLoan)"
proof -
  have ok: "create_position_from_dict (\<lambda>c d. Inr c :: unit + position_class)
        [''instrument_type'' \<mapsto> PStr ''loan_corporate''] = Inr CorporateLoan"
    by (simp add: create_position_from_dict_def falsy_def InstrumentType_of_value_def
        InstrumentType_members_def class_mapping_def)
  have unk: "InstrumentType_of_value ''invalid_type'' = None"
    by (simp add: InstrumentType_of_value_def InstrumentType_members_def)
  show ?thesis
    using create_position_from_dict_dispatch [of BOND "[''instrument_type'' \<mapsto> PStr ''bond'']"
        "\<lambda>c d. Inr c :: unit + position_class" "''invalid_type''"
        "[''instrument_type'' \<mapsto> PStr ''invalid_type'']" Map.empty
        "[''instrument_type'' \<mapsto> PStr ''loan_corporate'']" CorporateLoan] ok unk
    by simp
qed

text \<open>
  Claim C10 as stated fails at the empty string, which is a string outside the enumeration:
  the factory raises \<^verbatim>\<open>instrument_type is required\<close>, not \<^verbatim>\<open>Unknown instrument_type\<close>.
\<close>

theorem create_position_from_dict_empty_string_counterexample:
  "InstrumentType_of_value '''' = None
   \<and> create_position_from_dict (\<lambda>c d. Inr c :: unit + position_class)
        [''instrument_type'' \<mapsto> PStr ''''] = Inl InstrumentTypeRequired
   \<and> create_position_from_dict (\<lambda>c d. Inr c :: unit + position_class)
        [''instrument_type'' \<mapsto> PStr ''''] \<noteq> Inl (UnknownInstrumentType '''')"
  by (simp add: create_position_from_dict_def falsy_def InstrumentType_of_value_def
        InstrumentType_members_def)

subsection \<open>Validation at construction\<close>

lemma Position_field_errors_empty:
  "Position_field_errors x = [] \<longleftrightarrow> amount x \<noteq> 0 \<and> strip (position_id x) \<noteq> []"
  by (auto simp add: Position_field_errors_def collect_def amount_must_be_nonzero_def
      position_id_must_be_nonempty_def strip_def)

lemma amount_zero_cited:
  "amount x = 0 \<Longrightarrow>
   \<exists>errs. BalanceSheetInstrument_init se sv x = Inl errs \<and> AmountZero \<in> set errs"
  by (simp add: BalanceSheetInstrument_init_def model_validate_def Position_field_errors_def
      collect_def amount_must_be_nonzero_def)

lemma validate_dates_Inr:
  "validate_dates x = Inr y \<longleftrightarrow>
     y = x \<and> start_date x \<le> as_of_date x
     \<and> (case maturity_date x of None \<Rightarrow> True | Some m \<Rightarrow> start_date x < m)
     \<and> (case repricing_date x of None \<Rightarrow> True | Some r \<Rightarrow> as_of_date x \<le> r)"
  by (auto simp add: validate_dates_def split: option.splits)

lemma validate_rate_logic_Inr:
  "validate_rate_logic x = Inr y \<longleftrightarrow>
     y = x \<and> (if rate_type x = FLOATING
          then repricing_frequency x \<noteq> None \<and> repricing_date x \<noteq> None else True)"
  by (auto simp add: validate_rate_logic_def)

lemma maturity_equal_start_fails:
  assumes "maturity_date x = Some (start_date x)"
  shows "\<exists>errs. BalanceSheetInstrument_init se sv x = Inl errs \<and> errs \<noteq> []"
  using assms
  by (simp add: BalanceSheetInstrument_init_def model_validate_def validate_dates_def)

lemma maturity_equal_start_cited:
  assumes "maturity_date x = Some (start_date x)"
    and "Position_field_errors x @ se = []" and "start_date x \<le> as_of_date x"
  shows "BalanceSheetInstrument_init se sv x = Inl [MaturityNotAfterStart]"
  using assms
  by (simp add: BalanceSheetInstrument_init_def model_validate_def validate_dates_def)

lemma floating_without_frequency_fails:
  assumes "rate_type x = FLOATING" and "repricing_frequency x = None"
  shows "\<exists>errs. BalanceSheetInstrument_init se sv x = Inl errs \<and> errs \<noteq> []"
  using assms
  by (auto simp add: BalanceSheetInstrument_init_def model_validate_def validate_dates_Inr
       validate_rate_logic_def split: sum.splits)

lemma floating_without_frequency_cited:
  assumes "rate_type x = FLOATING" and "repricing_frequency x = None"
    and "Position_field_errors x @ se = []"
    and "start_date x \<le> as_of_date x"
    and "case maturity_date x of None \<Rightarrow> True | Some m \<Rightarrow> start_date x < m"
    and "case repricing_date x of None \<Rightarrow> True | Some r \<Rightarrow> as_of_date x \<le> r"
  shows "BalanceSheetInstrument_init se sv x = Inl [FloatingRequiresFrequency]"
proof -
  have "validate_dates (x\<lparr>position_id := strip (position_id x)\<rparr>)
          = Inr (x\<lparr>position_id := strip (position_id x)\<rparr>)"
    using assms(4-6) by (simp add: validate_dates_Inr split: option.splits)
  then show ?thesis
    using assms(1-3)
    by (simp add: BalanceSheetInstrument_init_def model_validate_def validate_rate_logic_def)
qed

lemma invariants_construct:
  assumes "construction_invariants x" and "se = []"
  shows "BalanceSheetInstrument_init se sv x = run_after sv (x\<lparr>position_id := strip (position_id x)\<rparr>)"
proof -
  let ?x' = "x\<lparr>position_id := strip (position_id x)\<rparr>"
  have fe: "Position_field_errors x @ se = []"
    using assms by (simp add: Position_field_errors_empty construction_invariants_def)
  have vd: "validate_dates ?x' = Inr ?x'"
    using assms(1) by (simp add: validate_dates_Inr construction_invariants_def split: option.splits)
  have vr: "validate_rate_logic ?x' = Inr ?x'"
    using assms(1) by (simp add: validate_rate_logic_Inr construction_invariants_def)
  show ?thesis
    by (simp add: BalanceSheetInstrument_init_def model_validate_def fe vd vr)
qed

lemma strip_example: "strip ''TEST_CORP_LOAN_001'' = ''TEST_CORP_LOAN_001''"
  by (simp add: strip_def is_space_def)

lemma CorporateLoan_init_succeeds:
  assumes "CorporateLoan_invariants x"
  shows "CorporateLoan_init x = Inr (x\<lparr>position_id := strip (position_id x)\<rparr>)"
proof -
  have se: "collect (literal_field LOAN_CORPORATE (instrument_type x))
        @ collect (literal_field CP_CORPORATE (counterparty_type x))
        @ collect (provision_cannot_be_negative (provision_amount x)) = []"
    using assms
    by (simp add: CorporateLoan_invariants_def collect_def literal_field_def
        provision_cannot_be_negative_def)
  have ci: "construction_invariants x"
    using assms by (simp add: CorporateLoan_invariants_def)
  have rv: "run_after [validate_revolving_logic] (x\<lparr>position_id := strip (position_id x)\<rparr>)
              = Inr (x\<lparr>position_id := strip (position_id x)\<rparr>)"
    using assms
    by (auto simp add: CorporateLoan_invariants_def validate_revolving_logic_def
        split: option.splits if_splits)
  show ?thesis
    unfolding CorporateLoan_init_def invariants_construct [OF ci se] rv ..
qed

lemma RetailLoan_init_succeeds:
  assumes "RetailLoan_invariants x"
  shows "RetailLoan_init x =
           Inr (x\<lparr>product_type := lower (product_type x), position_id := strip (position_id x)\<rparr>)"
proof -
  let ?x = "x\<lparr>product_type := lower (product_type x)\<rparr>"
  have se: "collect (literal_field LOAN_RETAIL (instrument_type x))
        @ collect (literal_field CP_RETAIL (counterparty_type x))
        @ collect (provision_cannot_be_negative (provision_amount x))
        @ collect (RetailLoan_validate_product_type (product_type x)) = []"
    using assms
    by (simp add: RetailLoan_invariants_def collect_def literal_field_def
        provision_cannot_be_negative_def RetailLoan_validate_product_type_def)
  have ci: "construction_invariants ?x"
    using assms
    by (simp add: RetailLoan_invariants_def construction_invariants_def split: option.splits)
  have rv: "run_after [validate_mortgage_logic] (?x\<lparr>position_id := strip (position_id ?x)\<rparr>)
              = Inr (?x\<lparr>position_id := strip (position_id ?x)\<rparr>)"
    using assms
    by (auto simp add: RetailLoan_invariants_def validate_mortgage_logic_def split: if_splits)
  show ?thesis
    unfolding RetailLoan_init_def invariants_construct [OF ci se] rv by simp
qed

lemma CorporateDeposit_init_succeeds:
  assumes "CorporateDeposit_invariants x"
  shows "CorporateDeposit_init x = Inr (x\<lparr>position_id := strip (position_id x)\<rparr>)"
proof -
  have se: "collect (literal_field DEPOSIT_CORPORATE (instrument_type x))
        @ collect (literal_field CP_CORPORATE (counterparty_type x)) = []"
    using assms
    by (simp add: CorporateDeposit_invariants_def collect_def literal_field_def)
  have ci: "construction_invariants x"
    using assms by (simp add: CorporateDeposit_invariants_def)
  show ?thesis
    unfolding CorporateDeposit_init_def invariants_construct [OF ci se] by simp
qed

lemma RetailDeposit_init_succeeds:
  assumes "RetailDeposit_invariants x"
  shows "RetailDeposit_init x =
           Inr (x\<lparr>deposit_product_type := lower (deposit_product_type x),
                  position_id := strip (position_id x),
                  insured_amount :=
                    (if is_insured x \<and> insured_amount x = None
                     then Some (min (amount x) 1400000) else insured_amount x)\<rparr>)"
proof -
  let ?x = "x\<lparr>deposit_product_type := lower (deposit_product_type x)\<rparr>"
  have se: "collect (literal_field DEPOSIT_RETAIL (instrument_type x))
        @ collect (literal_field CP_RETAIL (counterparty_type x))
        @ collect (RetailDeposit_validate_product_type (deposit_product_type x)) = []"
    using assms
    by (simp add: RetailDeposit_invariants_def collect_def literal_field_def
        RetailDeposit_validate_product_type_def)
  have ci: "construction_invariants ?x"
    using assms
    by (simp add: RetailDeposit_invariants_def construction_invariants_def split: option.splits)
  have nz: "amount x \<noteq> 0"
    using assms by (simp add: RetailDeposit_invariants_def construction_invariants_def)
  show ?thesis
    unfolding RetailDeposit_init_def invariants_construct [OF ci se]
    using nz by (simp add: validate_insurance_logic_def)
qed

lemma fixture_strings:
  "strip ''TEST_RETAIL_LOAN_001'' = ''TEST_RETAIL_LOAN_001''"
  "strip ''TEST'' = ''TEST''"
  "strip ''TEST_RETAIL_DEP_001'' = ''TEST_RETAIL_DEP_001''"
  "lower ''mortgage'' = ''mortgage''"
  "lower ''current_account'' = ''current_account''"
  by (simp_all add: strip_def is_space_def lower_def lower_char_def)

lemma fixture_invariants:
  "CorporateLoan_invariants corporate_loan_data"
  "RetailLoan_invariants retail_loan_data"
  "CorporateDeposit_invariants corporate_deposit_data"
  "RetailDeposit_invariants retail_deposit_data"
  by (simp_all add: CorporateLoan_invariants_def RetailLoan_invariants_def
      CorporateDeposit_invariants_def RetailDeposit_invariants_def construction_invariants_def
      corporate_loan_data_def retail_loan_data_def corporate_deposit_data_def
      retail_deposit_data_def strip_example fixture_strings)

lemma position_id_of_whitespace:
  "position_id_must_be_nonempty [CHR 0xA0] = Inl PositionIdEmpty"
  "position_id_must_be_nonempty [CHR 0x20, CHR 0x85, CHR 0x09] = Inl PositionIdEmpty"
  by (simp_all add: position_id_must_be_nonempty_def strip_def is_space_def)

text \<open>
  Claim C6, as amended. For any subclass of \<^verbatim>\<open>BalanceSheetInstrument\<close> (its own field messages
  \<open>se\<close> and model validators \<open>sv\<close>): construction fails, and no instance is produced, whenever
  \<^verbatim>\<open>amount == 0\<close>, or \<^verbatim>\<open>maturity_date == start_date\<close>, or the rate is floating and
  \<^verbatim>\<open>repricing_frequency\<close> is absent. The error cites the rule of the first validation stage that
  fails: the non-zero amount rule is cited whenever \<^verbatim>\<open>amount == 0\<close>; the maturity rule is the
  error when no field validator fails and \<^verbatim>\<open>start_date <= as_of_date\<close>; the floating-rate rule
  is the error when no field validator fails and the dates are valid. For every input that
  violates none of the construction invariants, as the validators check them, construction
  succeeds: this holds of each of the four classes \<^verbatim>\<open>CorporateLoan\<close>, \<^verbatim>\<open>RetailLoan\<close>,
  \<^verbatim>\<open>CorporateDeposit\<close> and \<^verbatim>\<open>RetailDeposit\<close> with its own invariants, and the instance made
  has the stripped \<^verbatim>\<open>position_id\<close>, the lower-case \<^verbatim>\<open>product_type\<close> and, for an insured retail
  deposit without \<^verbatim>\<open>insured_amount\<close>, the derived one.
\<close>

theorem BalanceSheetInstrument_init_validation:
  fixes x y z w :: "'a balance_sheet_instrument_scheme"
    and cl :: corporate_loan and rl :: retail_loan
    and cd :: corporate_deposit and rd :: retail_deposit
  shows
  "(amount x = 0 \<longrightarrow>
      (\<exists>errs. BalanceSheetInstrument_init se sv x = Inl errs \<and> AmountZero \<in> set errs))
   \<and> (maturity_date y = Some (start_date y) \<longrightarrow>
        (\<exists>errs. BalanceSheetInstrument_init se sv y = Inl errs \<and> errs \<noteq> [])
        \<and> (Position_field_errors y @ se = [] \<and> start_date y \<le> as_of_date y \<longrightarrow>
             BalanceSheetInstrument_init se sv y = Inl [MaturityNotAfterStart]))
   \<and> (rate_type z = FLOATING \<and> repricing_frequency z = None \<longrightarrow>
        (\<exists>errs. BalanceSheetInstrument_init se sv z = Inl errs \<and> errs \<noteq> [])
        \<and> (Position_field_errors z @ se = [] \<and> start_date z \<le> as_of_date z
             \<and> (case maturity_date z of None \<Rightarrow> True | Some m \<Rightarrow> start_date z < m)
             \<and> (case repricing_date z of None \<Rightarrow> True | Some r \<Rightarrow> as_of_date z \<le> r) \<longrightarrow>
             BalanceSheetInstrument_init se sv z = Inl [FloatingRequiresFrequency]))
   \<and> (construction_invariants w \<and> se = []
        \<and> run_after sv (w\<lparr>position_id := strip (position_id w)\<rparr>) = Inr w' \<longrightarrow>
        BalanceSheetInstrument_init se sv w = Inr w')
   \<and> (CorporateLoan_invariants cl \<longrightarrow>
        CorporateLoan_init cl = Inr (cl\<lparr>position_id := strip (position_id cl)\<rparr>))
   \<and> (RetailLoan_invariants rl \<longrightarrow>
        RetailLoan_init rl =
          Inr (rl\<lparr>product_type := lower (product_type rl),
                 position_id := strip (position_id rl)\<rparr>))
   \<and> (CorporateDeposit_invariants cd \<longrightarrow>
        CorporateDeposit_init cd = Inr (cd\<lparr>position_id := strip (position_id cd)\<rparr>))
   \<and> (RetailDeposit_invariants rd \<longrightarrow>
        RetailDeposit_init rd =
          Inr (rd\<lparr>deposit_product_type := lower (deposit_product_type rd),
                 position_id := strip (position_id rd),
                 insured_amount :=
                   (if is_insured rd \<and> insured_amount rd = None
                    then Some (min (amount rd) 1400000) else insured_amount rd)\<rparr>))"
proof -
  have generic:
    "(amount x = 0 \<longrightarrow>
      (\<exists>errs. BalanceSheetInstrument_init se sv x = Inl errs \<and> AmountZero \<in> set errs))
   \<and> (maturity_date y = Some (start_date y) \<longrightarrow>
        (\<exists>errs. BalanceSheetInstrument_init se sv y = Inl errs \<and> errs \<noteq> [])
        \<and> (Position_field_errors y @ se = [] \<and> start_date y \<le> as_of_date y \<longrightarrow>
             BalanceSheetInstrument_init se sv y = Inl [MaturityNotAfterStart]))
   \<and> (rate_type z = FLOATING \<and> repricing_frequency z = None \<longrightarrow>
        (\<exists>errs. BalanceSheetInstrument_init se sv z = Inl errs \<and> errs \<noteq> [])
        \<and> (Position_field_errors z @ se = [] \<and> start_date z \<le> as_of_date z
             \<and> (case maturity_date z of None \<Rightarrow> True | Some m \<Rightarrow> start_date z < m)
             \<and> (case repricing_date z of None \<Rightarrow> True | Some r \<Rightarrow> as_of_date z \<le> r) \<longrightarrow>
             BalanceSheetInstrument_init se sv z = Inl [FloatingRequiresFrequency]))
   \<and> (construction_invariants w \<and> se = []
        \<and> run_after sv (w\<lparr>position_id := strip (position_id w)\<rparr>) = Inr w' \<longrightarrow>
        BalanceSheetInstrument_init se sv w = Inr w')"
    using amount_zero_cited [of x se sv]
      maturity_equal_start_fails [of y se sv] maturity_equal_start_cited [of y se sv]
      floating_without_frequency_fails [of z se sv] floating_without_frequency_cited [of z se sv]
      invariants_construct [of w se sv]
    by simp
  show ?thesis
    using generic CorporateLoan_init_succeeds [of cl] RetailLoan_init_succeeds [of rl]
      CorporateDeposit_init_succeeds [of cd] RetailDeposit_init_succeeds [of rd]
    by blast
qed

theorem BalanceSheetInstrument_init_validation_witness:
  "amount (corporate_loan_data\<lparr>amount := 0\<rparr>) = 0
   \<and> (\<exists>errs. BalanceSheetInstrument_init [] [validate_revolving_logic]
                (corporate_loan_data\<lparr>amount := 0\<rparr>) = Inl errs \<and> AmountZero \<in> set errs)
   \<and> maturity_date (corporate_loan_data\<lparr>maturity_date := Some 738886\<rparr>)
       = Some (start_date (corporate_loan_data\<lparr>maturity_date := Some 738886\<rparr>))
   \<and> Position_field_errors (corporate_loan_data\<lparr>maturity_date := Some 738886\<rparr>) @ [] = []
   \<and> start_date (corporate_loan_data\<lparr>maturity_date := Some 738886\<rparr>)
       \<le> as_of_date (corporate_loan_data\<lparr>maturity_date := Some 738886\<rparr>)
   \<and> BalanceSheetInstrument_init [] [validate_revolving_logic]
        (corporate_loan_data\<lparr>maturity_date := Some 738886\<rparr>) = Inl [MaturityNotAfterStart]
   \<and> rate_type (corporate_loan_data\<lparr>rate_type := FLOATING\<rparr>) = FLOATING
   \<and> repricing_frequency (corporate_loan_data\<lparr>rate_type := FLOATING\<rparr>) = None
   \<and> Position_field_errors (corporate_loan_data\<lparr>rate_type := FLOATING\<rparr>) @ [] = []
   \<and> BalanceSheetInstrument_init [] [validate_revolving_logic]
        (corporate_loan_data\<lparr>rate_type := FLOATING\<rparr>) = Inl [FloatingRequiresFrequency]
   \<and> construction_invariants corporate_loan_data
   \<and> run_after [validate_revolving_logic]
        (corporate_loan_data\<lparr>position_id := strip (position_id corporate_loan_data)\<rparr>)
       = Inr corporate_loan_data
   \<and> BalanceSheetInstrument_init [] [validate_revolving_logic] corporate_loan_data
       = Inr corporate_loan_data
   \<and> CorporateLoan_invariants corporate_loan_data
   \<and> CorporateLoan_init corporate_loan_data = Inr corporate_loan_data
   \<and> RetailLoan_invariants retail_loan_data
   \<and> RetailLoan_init retail_loan_data = Inr retail_loan_data
   \<and> CorporateDeposit_invariants corporate_deposit_data
   \<and> CorporateDeposit_init corporate_deposit_data = Inr corporate_deposit_data
   \<and> RetailDeposit_invariants retail_deposit_data
   \<and> RetailDeposit_init retail_deposit_data
       = Inr (retail_deposit_data\<lparr>insured_amount := Some 500000\<rparr>)"
proof -
  have inv: "construction_invariants corporate_loan_data"
    by (simp add: construction_invariants_def corporate_loan_data_def strip_example)
  have fe: "Position_field_errors (corporate_loan_data\<lparr>maturity_date := Some 738886\<rparr>) = []"
    "Position_field_errors (corporate_loan_data\<lparr>rate_type := FLOATING\<rparr>) = []"
    by (simp_all add: Position_field_errors_empty corporate_loan_data_def strip_example)
  have ra: "run_after [validate_revolving_logic]
        (corporate_loan_data\<lparr>position_id := strip (position_id corporate_loan_data)\<rparr>)
       = Inr corporate_loan_data"
    by (simp add: validate_revolving_logic_def corporate_loan_data_def strip_example)
  show ?thesis
    using BalanceSheetInstrument_init_validation
      [where x = "corporate_loan_data\<lparr>amount := 0\<rparr>"
         and y = "corporate_loan_data\<lparr>maturity_date := Some 738886\<rparr>"
         and z = "corporate_loan_data\<lparr>rate_type := FLOATING\<rparr>"
         and w = corporate_loan_data and w' = corporate_loan_data
         and se = "[]" and sv = "[validate_revolving_logic]"
         and cl = corporate_loan_data and rl = retail_loan_data
         and cd = corporate_deposit_data and rd = retail_deposit_data]
      inv fe ra fixture_invariants
    by (simp add: corporate_loan_data_def retail_loan_data_def corporate_deposit_data_def
        retail_deposit_data_def strip_example fixture_strings)
qed

text \<open>
  Claim C6 as stated fails where two rules are violated at once: a \<^verbatim>\<open>CorporateLoan\<close> with a zero
  amount and \<^verbatim>\<open>maturity_date == start_date\<close> fails citing the amount rule only, and one with
  \<^verbatim>\<open>maturity_date == start_date\<close> and a floating rate without \<^verbatim>\<open>repricing_frequency\<close> fails
  citing the maturity rule only. And a revolving loan whose \<^verbatim>\<open>credit_limit\<close> is present but
  zero is refused, since the validator tests the truth value of the limit.
\<close>

theorem CorporateLoan_init_masked_rule_counterexample:
  "amount (corporate_loan_data\<lparr>amount := 0, maturity_date := Some 738886\<rparr>) = 0
   \<and> maturity_date (corporate_loan_data\<lparr>amount := 0, maturity_date := Some 738886\<rparr>)
       = Some (start_date (corporate_loan_data\<lparr>amount := 0, maturity_date := Some 738886\<rparr>))
   \<and> CorporateLoan_init (corporate_loan_data\<lparr>amount := 0, maturity_date := Some 738886\<rparr>)
       = Inl [AmountZero]
   \<and> rate_type (corporate_loan_data\<lparr>maturity_date := Some 738886, rate_type := FLOATING\<rparr>) = FLOATING
   \<and> repricing_frequency (corporate_loan_data\<lparr>maturity_date := Some 738886, rate_type := FLOATING\<rparr>) = None
   \<and> CorporateLoan_init (corporate_loan_data\<lparr>maturity_date := Some 738886, rate_type := FLOATING\<rparr>)
       = Inl [MaturityNotAfterStart]
   \<and> construction_invariants (corporate_loan_data\<lparr>is_revolving := True, credit_limit := Some 0\<rparr>)
   \<and> credit_limit (corporate_loan_data\<lparr>is_revolving := True, credit_limit := Some 0\<rparr>) = Some 0
   \<and> CorporateLoan_init (corporate_loan_data\<lparr>is_revolving := True, credit_limit := Some 0\<rparr>)
       = Inl [RevolvingRequiresLimit]"
  by (simp add: corporate_loan_data_def CorporateLoan_init_def BalanceSheetInstrument_init_def
      model_validate_def Position_field_errors_def collect_def amount_must_be_nonzero_def
      position_id_must_be_nonempty_def literal_field_def provision_cannot_be_negative_def
      validate_dates_def validate_rate_logic_def validate_revolving_logic_def
      construction_invariants_def strip_example)

subsection \<open>The unit tests of construction\<close>

text \<open>The cases of \<^verbatim>\<open>tests/unit/test_positions.py\<close> on the fixtures, run on the embedding.\<close>

lemma test_create_corporate_loan:
  "CorporateLoan_init corporate_loan_data = Inr corporate_loan_data"
  by (simp add: corporate_loan_data_def CorporateLoan_init_def BalanceSheetInstrument_init_def
      model_validate_def Position_field_errors_def collect_def amount_must_be_nonzero_def
      position_id_must_be_nonempty_def literal_field_def provision_cannot_be_negative_def
      validate_dates_def validate_rate_logic_def validate_revolving_logic_def strip_example)

lemma test_zero_amount_raises_error:
  "CorporateLoan_init (corporate_loan_data\<lparr>amount := 0\<rparr>) = Inl [AmountZero]"
  by (simp add: corporate_loan_data_def CorporateLoan_init_def BalanceSheetInstrument_init_def
      model_validate_def Position_field_errors_def collect_def amount_must_be_nonzero_def
      position_id_must_be_nonempty_def literal_field_def provision_cannot_be_negative_def
      strip_example)

lemma test_maturity_on_as_of_date:
  "CorporateLoan_init (corporate_loan_data\<lparr>maturity_date := Some 738886\<rparr>)
     = Inl [MaturityNotAfterStart]"
  by (simp add: corporate_loan_data_def CorporateLoan_init_def BalanceSheetInstrument_init_def
      model_validate_def Position_field_errors_def collect_def amount_must_be_nonzero_def
      position_id_must_be_nonempty_def literal_field_def provision_cannot_be_negative_def
      validate_dates_def strip_example)

lemma test_floating_rate_without_repricing_raises_error:
  "CorporateLoan_init (corporate_loan_data\<lparr>rate_type := FLOATING\<rparr>)
     = Inl [FloatingRequiresFrequency]"
  by (simp add: corporate_loan_data_def CorporateLoan_init_def BalanceSheetInstrument_init_def
      model_validate_def Position_field_errors_def collect_def amount_must_be_nonzero_def
      position_id_must_be_nonempty_def literal_field_def provision_cannot_be_negative_def
      validate_dates_def validate_rate_logic_def strip_example)

lemma lower_Mortgage: "lower ''Mortgage'' = ''mortgage''"
  by code_simp

lemma test_auto_insured_amount_for_retail_deposit:
  "RetailDeposit_init (retail_deposit_data\<lparr>amount := 2000000\<rparr>)
     = Inr (retail_deposit_data\<lparr>amount := 2000000, insured_amount := Some 1400000\<rparr>)"
  by (simp add: retail_deposit_data_def RetailDeposit_init_def BalanceSheetInstrument_init_def
      model_validate_def Position_field_errors_def collect_def amount_must_be_nonzero_def
      position_id_must_be_nonempty_def literal_field_def RetailDeposit_validate_product_type_def
      validate_dates_def validate_rate_logic_def validate_insurance_logic_def fixture_strings)

lemma test_get_cash_flows_nmd_returns_empty:
  "DepositBase_get_cash_flows retail_deposit_data = []"
  by (simp add: DepositBase_get_cash_flows_def retail_deposit_data_def)

subsection \<open>The gap table\<close>











text \<open>The table of the first book. The \<^verbatim>\<open>Cumulative Gap\<close> of its row \<^verbatim>\<open>TOTAL\<close> is the last
  running total, \<open>-500000\<close>, and not the sum \<open>-10500000\<close> of the column.\<close>

lemma gap_data_example_book:
  "gap_data (analyzer_of example_book) =
     [\<lparr>dr_bucket = ''2-3 years'', dr_classification = ''Asset'', dr_amount_base = 10000000\<rparr>,
      \<lparr>dr_bucket = ''1-3 months'', dr_classification = ''Liability'', dr_amount_base = 10000000\<rparr>,
      \<lparr>dr_bucket = ''5+ years'', dr_classification = ''Liability'', dr_amount_base = 500000\<rparr>]"
  by (simp add: gap_data_def analyzer_of_def LiquidityGapAnalyzer_init_def example_book_def
      corporate_loan_data_def corporate_deposit_data_def retail_deposit_data_def
      calculate_days_to_maturity_def get_bucket_def define_buckets_def classify_position_def
      convert_to_base_currency_def)

lemma calculate_gap_example_book:
  "calculate_gap (analyzer_of example_book) =
     Inr (\<lparr>index = [''1-3 months'', ''2-3 years'', ''5+ years'', ''TOTAL''],
           Asset = [0, 10000000, 0, 10000000],
           Liability = [10000000, 0, 500000, 10500000],
           Gap = [- 10000000, 10000000, - 500000, - 500000],
           Cumulative_Gap = [- 10000000, 0, - 500000, - 500000]\<rparr>,
          analyzer_of example_book
            \<lparr>self_gap_df := Some
              \<lparr>index = [''1-3 months'', ''2-3 years'', ''5+ years'', ''TOTAL''],
               Asset = [0, 10000000, 0, 10000000],
               Liability = [10000000, 0, 500000, 10500000],
               Gap = [- 10000000, 10000000, - 500000, - 500000],
               Cumulative_Gap = [- 10000000, 0, - 500000, - 500000]\<rparr>\<rparr>)"
proof -
  have b: "self_buckets (analyzer_of example_book) = define_buckets"
    by (simp add: analyzer_of_def LiquidityGapAnalyzer_init_def)
  show ?thesis
    unfolding calculate_gap_def gap_data_example_book b Let_def
    by (simp add: define_buckets_def pivot_cell_def)
qed


subsection \<open>The liquidity ratios\<close>
































end
